theory Spec2Isabelle
  imports Main
begin

section \<open>Strings\<close>

text \<open>
  A Python string is the list of its Unicode code points. A literal of the program
  is written \<open>lit ''...''\<close>; the two marks outside ASCII are given by their code points.
\<close>

type_synonym ustr = "nat list"

abbreviation lit :: "string \<Rightarrow> ustr" where
  "lit s \<equiv> map of_char s"

definition is_space :: "nat \<Rightarrow> bool" where
  \<comment> \<open>the code points \<open>str.strip()\<close> removes, which are those of \<open>str.isspace()\<close>\<close>
  "is_space c =
     ((0x09 \<le> c \<and> c \<le> 0x0D) \<or> (0x1C \<le> c \<and> c \<le> 0x20) \<or> c = 0x85 \<or> c = 0xA0 \<or>
      c = 0x1680 \<or> (0x2000 \<le> c \<and> c \<le> 0x200A) \<or> c = 0x2028 \<or> c = 0x2029 \<or>
      c = 0x202F \<or> c = 0x205F \<or> c = 0x3000)"

definition strip :: "ustr \<Rightarrow> ustr" where
  \<comment> \<open>\<open>str.strip()\<close>: drop leading and trailing whitespace\<close>
  "strip s = rev (dropWhile is_space (rev (dropWhile is_space s)))"

text \<open>
  \<open>str.lower()\<close>. The ASCII capitals go to their small letters; of the code points
  outside ASCII only two have ASCII letters in their lower case, the Kelvin sign and
  the dotted capital I. Every other code point outside ASCII goes to code points
  outside ASCII and is left as it is here: the program only compares the result with
  ASCII texts (the two domains, \<open>y\<close> and \<open>yes\<close>) and never prints it.
\<close>

definition char_lower :: "nat \<Rightarrow> ustr" where
  "char_lower c =
     (if 0x41 \<le> c \<and> c \<le> 0x5A then [c + 0x20]
      else if c = 0x212A then [0x6B]
      else if c = 0x130 then [0x69, 0x307]
      else [c])"

definition lower :: "ustr \<Rightarrow> ustr" where
  "lower s = concat (map char_lower s)"

definition starts_with :: "ustr \<Rightarrow> ustr \<Rightarrow> bool" where
  "starts_with sub s = (take (length sub) s = sub)"

fun contains :: "ustr \<Rightarrow> ustr \<Rightarrow> bool" where
  \<comment> \<open>\<open>sub in s\<close> on strings\<close>
  "contains sub [] = (sub = [])"
| "contains sub (c # cs) = (starts_with sub (c # cs) \<or> contains sub cs)"

definition quoted :: "ustr \<Rightarrow> ustr" where
  \<comment> \<open>the text between two apostrophes\<close>
  "quoted s = 0x27 # s @ [0x27]"

definition newline :: nat where
  "newline = 0x0A"

definition check_mark :: ustr where
  "check_mark = [0x2713]"

definition cross_mark :: ustr where
  "cross_mark = [0x2717]"

section \<open>Integers as text\<close>

definition digit_char :: "nat \<Rightarrow> nat" where
  "digit_char d = 0x30 + d mod 10"

fun str_nat :: "nat \<Rightarrow> ustr" where
  "str_nat n = (if n < 10 then [digit_char n] else str_nat (n div 10) @ [digit_char (n mod 10)])"

declare str_nat.simps [simp del]

definition str_int :: "int \<Rightarrow> ustr" where
  \<comment> \<open>\<open>str(n)\<close> for an integer\<close>
  "str_int n = (if n < 0 then 0x2D # str_nat (nat (- n)) else str_nat (nat n))"

definition fmt_02d :: "int \<Rightarrow> ustr" where
  \<comment> \<open>the format specification \<open>02d\<close>: sign-aware zero padding to a minimum width of two\<close>
  "fmt_02d n = (let s = str_int n in if length s < 2 then 0x30 # s else s)"

section \<open>Exceptions\<close>

text \<open>
  An exception is its class and the text \<open>str(e)\<close> gives. The classes are the ones the
  program names in its handlers or meets at its calls; a constructor stands for the
  class and for what derives from it (\<open>ImportError\<close> covers \<open>ModuleNotFoundError\<close>). The
  rest of the hierarchy is in two constructors: a class that derives from \<open>Exception\<close>,
  and one that derives from \<open>BaseException\<close> only, as \<open>KeyboardInterrupt\<close> and
  \<open>SystemExit\<close> do.
\<close>

datatype exn_class =
    KeyboardInterrupt
  | SystemExit
  | EOFError
  | ImportError
  | FileNotFoundError
  | FileExistsError
  | NotADirectoryError
  | PermissionError
  | CalledProcessError
  | TypeError
  | ValueError
  | OtherException ustr
  | OtherBaseException ustr

datatype pyexn = PyExn (exn_class: exn_class) (exn_str: ustr)

fun is_Exception :: "exn_class \<Rightarrow> bool" where
  \<comment> \<open>what \<open>except Exception\<close> catches\<close>
  "is_Exception KeyboardInterrupt = False"
| "is_Exception SystemExit = False"
| "is_Exception (OtherBaseException _) = False"
| "is_Exception _ = True"

definition eof_error :: pyexn where
  \<comment> \<open>what \<open>input()\<close> raises when standard input is exhausted\<close>
  "eof_error = PyExn EOFError (lit ''EOF when reading a line'')"

section \<open>Standard input\<close>

text \<open>
  What the calls of \<open>input()\<close> will do, in order: return a line (without its newline) or
  raise, as when the user interrupts at the prompt. After the last entry standard
  input is exhausted and \<open>input()\<close> raises \<open>EOFError\<close>.
\<close>

type_synonym script = "(pyexn + ustr) list"

section \<open>Values of the metadata dictionary\<close>

datatype pyval = VNone | VInt int | VStr ustr

type_synonym info = "ustr \<rightharpoonup> pyval"

definition dict_get :: "info \<Rightarrow> ustr \<Rightarrow> pyval \<Rightarrow> pyval" where
  \<comment> \<open>\<open>d.get(key, default)\<close>\<close>
  "dict_get d k dflt = (case d k of None \<Rightarrow> dflt | Some v \<Rightarrow> v)"

fun py_str :: "pyval \<Rightarrow> ustr" where
  \<comment> \<open>how an f-string renders the value\<close>
  "py_str VNone = lit ''None''"
| "py_str (VInt n) = str_int n"
| "py_str (VStr s) = s"

fun truthy :: "pyval \<Rightarrow> bool" where
  "truthy VNone = False"
| "truthy (VInt n) = (n \<noteq> 0)"
| "truthy (VStr s) = (s \<noteq> [])"

section \<open>Observable events\<close>

text \<open>
  The options handed to the fetch library, as the dictionary \<open>ydl_opts\<close> has them.
\<close>

record postprocessor =
  pp_key :: ustr
  preferredcodec :: ustr
  preferredquality :: ustr

record ydl_opts =
  format :: ustr
  outtmpl :: ustr
  postprocessors :: "postprocessor list"
  postprocessor_args :: "ustr list"
  prefer_ffmpeg :: bool
  keepvideo :: bool

text \<open>
  Paths are POSIX paths. A resolved path (what \<open>Path(...).resolve()\<close> returns, which is
  absolute) is the list of its segments below the root \<open>/\<close>.
\<close>

type_synonym path = "ustr list"

definition path_str :: "path \<Rightarrow> ustr" where
  \<comment> \<open>\<open>str(p)\<close>\<close>
  "path_str p = (if p = [] then lit ''/'' else concat (map (\<lambda>seg. 0x2F # seg) p))"

datatype event =
    Prompt ustr                \<comment> \<open>the prompt \<open>input(...)\<close> writes\<close>
  | Print ustr                 \<comment> \<open>one call of \<open>print\<close>\<close>
  | YoutubeDL ydl_opts         \<comment> \<open>construction of the fetch service\<close>
  | ExtractInfo ustr           \<comment> \<open>\<open>ydl.extract_info(url, download=False)\<close>\<close>
  | Download "ustr list"       \<comment> \<open>\<open>ydl.download([url])\<close>\<close>
  | Mkdir path                 \<comment> \<open>\<open>p.mkdir(parents=True, exist_ok=True)\<close>\<close>
  | FfmpegProbe                \<comment> \<open>\<open>subprocess.run(['ffmpeg', '-version'], ...)\<close>\<close>

fun is_print :: "event \<Rightarrow> bool" where
  "is_print (Print _) = True"
| "is_print _ = False"

fun is_dispatch :: "event \<Rightarrow> bool" where
  \<comment> \<open>the events only \<open>download_audio\<close> produces\<close>
  "is_dispatch (YoutubeDL _) = True"
| "is_dispatch (ExtractInfo _) = True"
| "is_dispatch (Download _) = True"
| "is_dispatch _ = False"

section \<open>The outside world\<close>

text \<open>
  The fetch library and the file system are outside the program. Each of their calls
  answers from a state of the outside world \<open>'w\<close> and returns the next one; a call
  either returns or raises. Nothing is assumed of what they answer.
\<close>

record 'w fetch_service =
  new_ydl :: "ydl_opts \<Rightarrow> 'w \<Rightarrow> pyexn option \<times> 'w"
  extract_info :: "ustr \<Rightarrow> 'w \<Rightarrow> (pyexn + info) \<times> 'w"
  download :: "ustr list \<Rightarrow> 'w \<Rightarrow> pyexn option \<times> 'w"

record 'w file_system =
  path_resolve :: "ustr \<Rightarrow> 'w \<Rightarrow> (pyexn + path) \<times> 'w"    \<comment> \<open>\<open>Path(s).resolve()\<close>\<close>
  path_exists :: "path \<Rightarrow> 'w \<Rightarrow> (pyexn + bool) \<times> 'w"     \<comment> \<open>\<open>p.exists()\<close>\<close>
  path_is_dir :: "path \<Rightarrow> 'w \<Rightarrow> (pyexn + bool) \<times> 'w"     \<comment> \<open>\<open>p.is_dir()\<close>\<close>
  os_access_w :: "path \<Rightarrow> 'w \<Rightarrow> (pyexn + bool) \<times> 'w"     \<comment> \<open>\<open>os.access(p, os.W_OK)\<close>\<close>
  path_mkdir :: "path \<Rightarrow> bool \<Rightarrow> bool \<Rightarrow> 'w \<Rightarrow> pyexn option \<times> 'w"
    \<comment> \<open>\<open>p.mkdir(parents=..., exist_ok=...)\<close>\<close>

section \<open>download_audio\<close>

definition os_path_join :: "ustr \<Rightarrow> ustr \<Rightarrow> ustr" where
  \<comment> \<open>\<open>os.path.join(a, b)\<close> on POSIX\<close>
  "os_path_join a b =
     (if starts_with (lit ''/'') b then b
      else if a = [] \<or> last a = 0x2F then a @ b
      else a @ lit ''/'' @ b)"

definition make_ydl_opts :: "ustr \<Rightarrow> ydl_opts" where
  "make_ydl_opts download_path =
     \<lparr> format = lit ''bestaudio/best'',
       outtmpl = os_path_join download_path (lit ''%(title)s.%(ext)s''),
       postprocessors =
         [\<lparr> pp_key = lit ''FFmpegExtractAudio'',
            preferredcodec = lit ''mp3'',
            preferredquality = lit ''192'' \<rparr>],
       postprocessor_args = [lit ''-ar'', lit ''44100''],
       prefer_ffmpeg = True,
       keepvideo = False \<rparr>"

definition duration_lines :: "pyval \<Rightarrow> pyexn + event list" where
  \<comment> \<open>\<open>if duration: mins, secs = divmod(duration, 60); print(...)\<close>\<close>
  "duration_lines duration =
     (if truthy duration then
        (case duration of
           VInt d \<Rightarrow>
             Inr [Print (lit ''Duration: '' @ fmt_02d (d div 60) @ lit '':'' @
                         fmt_02d (d mod 60))]
         | _ \<Rightarrow>
             Inl (PyExn TypeError
               (lit ''unsupported operand type(s) for divmod(): '' @ quoted (lit ''str'') @
                lit '' and '' @ quoted (lit ''int''))))
      else Inr [])"

definition try_body ::
  "'w fetch_service \<Rightarrow> ydl_opts \<Rightarrow> ustr \<Rightarrow> 'w \<Rightarrow> (pyexn + unit) \<times> event list \<times> 'w" where
  \<comment> \<open>the body of the \<open>try\<close> statement; \<open>Inl e\<close> when it raises \<open>e\<close>\<close>
  "try_body svc opts url w =
     (case new_ydl svc opts w of
        (Some e, w1) \<Rightarrow> (Inl e, [YoutubeDL opts], w1)
      | (None, w1) \<Rightarrow>
          (case extract_info svc url w1 of
             (Inl e, w2) \<Rightarrow> (Inl e, [YoutubeDL opts, ExtractInfo url], w2)
           | (Inr info, w2) \<Rightarrow>
               (let title = dict_get info (lit ''title'') (VStr (lit ''Unknown''));
                    duration = dict_get info (lit ''duration'') (VInt 0);
                    evs1 = [YoutubeDL opts, ExtractInfo url,
                            Print (lit ''Title: '' @ py_str title)]
                in case duration_lines duration of
                     Inl e \<Rightarrow> (Inl e, evs1, w2)
                   | Inr lines \<Rightarrow>
                       (let evs2 = evs1 @ lines @
                              [Print (lit ''Downloading and converting to MP3...''),
                               Download [url]]
                        in case download svc [url] w2 of
                             (Some e, w3) \<Rightarrow> (Inl e, evs2, w3)
                           | (None, w3) \<Rightarrow>
                               (Inr (),
                                evs2 @ [Print (check_mark @ lit '' Successfully downloaded: '' @
                                          py_str title)],
                                w3)))))"

definition error_line :: "ustr \<Rightarrow> ustr \<Rightarrow> ustr" where
  "error_line url msg = cross_mark @ lit '' Error downloading '' @ url @ lit '': '' @ msg"

definition download_audio ::
  "'w fetch_service \<Rightarrow> ustr \<Rightarrow> ustr \<Rightarrow> 'w \<Rightarrow> pyexn option \<times> event list \<times> 'w" where
  \<comment> \<open>\<open>Some e\<close>: the exception \<open>e\<close> leaves the function; \<open>None\<close>: it returns\<close>
  "download_audio svc url download_path w =
     (let opts = make_ydl_opts download_path in
      case try_body svc opts url w of
        (Inr u, evs, w') \<Rightarrow> (None, evs, w')
      | (Inl e, evs, w') \<Rightarrow>
          if is_Exception (exn_class e)
          then (None, evs @ [Print (error_line url (exn_str e))], w')
          else (Some e, evs, w'))"

section \<open>The session loop\<close>

record session =
  download_path :: ustr
  downloaded_count :: int

text \<open>
  Where one pass through the body of \<open>while True\<close> leaves the loop: back at the prompt
  (the end of the body or \<open>continue\<close>), past the loop (\<open>break\<close>), or out of it with an
  exception nobody catches.
\<close>

datatype loop_state = AwaitingURL | Ended | Aborted pyexn

definition valid_url :: "ustr \<Rightarrow> bool" where
  \<comment> \<open>\<open>any(domain in url.lower() for domain in ['youtube.com', 'youtu.be'])\<close>\<close>
  "valid_url url =
     list_ex (\<lambda>domain. contains domain (lower url)) [lit ''youtube.com'', lit ''youtu.be'']"

definition url_prompt :: ustr where
  "url_prompt = lit ''Enter YouTube URL (or press Enter to exit): ''"

definition loop_body ::
  "'w fetch_service \<Rightarrow> session \<Rightarrow> 'w \<Rightarrow> ustr \<Rightarrow> loop_state \<times> session \<times> event list \<times> 'w" where
  \<comment> \<open>the body of the loop after \<open>input\<close> has returned \<open>line\<close>\<close>
  "loop_body svc st w line =
     (let url = strip line in
      if url = [] then (Ended, st, [], w)
      else if \<not> valid_url url then
        (AwaitingURL, st, [Print (lit ''Please enter a valid YouTube URL.'')], w)
      else
        (case download_audio svc url (download_path st) w of
           (Some e, evs, w') \<Rightarrow>
             (Aborted e, st, Print (newline # lit ''Processing: '' @ url) # evs, w')
         | (None, evs, w') \<Rightarrow>
             (AwaitingURL,
              st\<lparr>downloaded_count := downloaded_count st + 1\<rparr>,
              Print (newline # lit ''Processing: '' @ url) # evs @
                [Print (replicate 50 0x2D)],
              w')))"

fun session_loop ::
  "'w fetch_service \<Rightarrow> session \<Rightarrow> 'w \<Rightarrow> script \<Rightarrow> loop_state \<times> session \<times> event list \<times> 'w" where
  \<comment> \<open>\<open>while True\<close>, each pass starting with \<open>input(...)\<close>\<close>
  "session_loop svc st w [] = (Aborted eof_error, st, [Prompt url_prompt], w)"
| "session_loop svc st w (Inl e # rest) = (Aborted e, st, [Prompt url_prompt], w)"
| "session_loop svc st w (Inr line # rest) =
     (case loop_body svc st w line of
        (AwaitingURL, st', evs, w') \<Rightarrow>
          (case session_loop svc st' w' rest of
             (r, st'', evs', w'') \<Rightarrow> (r, st'', Prompt url_prompt # evs @ evs', w''))
      | (r, st', evs, w') \<Rightarrow> (r, st', Prompt url_prompt # evs, w'))"

section \<open>get_download_path\<close>

datatype attempt = Returned ustr | Retry | Raised pyexn

definition path_prompt :: ustr where
  "path_prompt = lit ''Enter the absolute path where you want to save MP3 files: ''"

definition create_prompt :: "path \<Rightarrow> ustr" where
  "create_prompt dp =
     lit ''Path '' @ quoted (path_str dp) @ lit '' doesn't exist. Create it? (y/n): ''"

definition not_dir_msg :: ustr where
  "not_dir_msg = lit ''The path must be a directory, not a file.''"

definition not_writable_msg :: ustr where
  "not_writable_msg = lit ''You don't have write permission to this directory.''"

definition empty_path_msg :: ustr where
  "empty_path_msg = lit ''Please enter a valid path.''"

definition path_checks ::
  "'w file_system \<Rightarrow> path \<Rightarrow> event list \<Rightarrow> script \<Rightarrow> 'w
     \<Rightarrow> attempt \<times> event list \<times> script \<times> 'w" where
  \<comment> \<open>the two checks after the path exists, and the \<open>return\<close>\<close>
  "path_checks fsys dp evs rest w =
     (case path_is_dir fsys dp w of
        (Inl e, w1) \<Rightarrow> (Raised e, evs, rest, w1)
      | (Inr d, w1) \<Rightarrow>
          if \<not> d then (Retry, evs @ [Print not_dir_msg], rest, w1)
          else
            (case os_access_w fsys dp w1 of
               (Inl e, w2) \<Rightarrow> (Raised e, evs, rest, w2)
             | (Inr a, w2) \<Rightarrow>
                 if \<not> a then (Retry, evs @ [Print not_writable_msg], rest, w2)
                 else (Returned (path_str dp), evs, rest, w2)))"

definition confirm_create ::
  "'w file_system \<Rightarrow> path \<Rightarrow> script \<Rightarrow> 'w \<Rightarrow> attempt \<times> event list \<times> script \<times> 'w" where
  \<comment> \<open>the branch \<open>if not download_path.exists()\<close>: the question, the answer, the creation\<close>
  "confirm_create fsys dp rest w =
     (case rest of
        [] \<Rightarrow> (Raised eof_error, [Prompt (create_prompt dp)], [], w)
      | Inl e # rest' \<Rightarrow> (Raised e, [Prompt (create_prompt dp)], rest', w)
      | Inr answer # rest' \<Rightarrow>
          (let create = lower (strip answer) in
           if create = lit ''y'' \<or> create = lit ''yes'' then
             (case path_mkdir fsys dp True True w of
                (None, w1) \<Rightarrow>
                  path_checks fsys dp
                    [Prompt (create_prompt dp), Mkdir dp,
                     Print (lit ''Created directory: '' @ path_str dp)]
                    rest' w1
              | (Some e, w1) \<Rightarrow>
                  if is_Exception (exn_class e) then
                    (Retry,
                     [Prompt (create_prompt dp), Mkdir dp,
                      Print (lit ''Error creating directory: '' @ exn_str e)],
                     rest', w1)
                  else (Raised e, [Prompt (create_prompt dp), Mkdir dp], rest', w1))
           else (Retry, [Prompt (create_prompt dp)], rest', w)))"

definition path_attempt ::
  "'w file_system \<Rightarrow> 'w \<Rightarrow> ustr \<Rightarrow> script \<Rightarrow> attempt \<times> event list \<times> script \<times> 'w" where
  \<comment> \<open>the body of the loop after the first \<open>input\<close> has returned \<open>line\<close>;
      \<open>rest\<close> is what standard input will do next\<close>
  "path_attempt fsys w line rest =
     (let path = strip line in
      if path = [] then (Retry, [Print empty_path_msg], rest, w)
      else
        (case path_resolve fsys path w of
           (Inl e, w1) \<Rightarrow> (Raised e, [], rest, w1)
         | (Inr dp, w1) \<Rightarrow>
             (case path_exists fsys dp w1 of
                (Inl e, w2) \<Rightarrow> (Raised e, [], rest, w2)
              | (Inr ex, w2) \<Rightarrow>
                  if \<not> ex then confirm_create fsys dp rest w2
                  else path_checks fsys dp [] rest w2)))"

function get_download_path ::
  "'w file_system \<Rightarrow> 'w \<Rightarrow> script \<Rightarrow> attempt \<times> event list \<times> script \<times> 'w" where
  \<comment> \<open>\<open>while True\<close>, each pass starting with \<open>input(...)\<close>; never \<open>Retry\<close>\<close>
  "get_download_path fsys w [] = (Raised eof_error, [Prompt path_prompt], [], w)"
| "get_download_path fsys w (Inl e # rest) = (Raised e, [Prompt path_prompt], rest, w)"
| "get_download_path fsys w (Inr line # rest) =
     (case path_attempt fsys w line rest of
        (Retry, evs, rest', w') \<Rightarrow>
          (case get_download_path fsys w' rest' of
             (r, evs', rest'', w'') \<Rightarrow> (r, Prompt path_prompt # evs @ evs', rest'', w''))
      | (r, evs, rest', w') \<Rightarrow> (r, Prompt path_prompt # evs, rest', w'))"
  by pat_completeness auto
termination
  by (relation "measure (\<lambda>(fsys, w, ins). length ins)")
     (auto simp: path_attempt_def confirm_create_def path_checks_def Let_def less_Suc_eq_le
      split: if_splits list.splits sum.splits prod.splits option.splits)

section \<open>main and the module\<close>

definition ffmpeg_warning :: "event list" where
  "ffmpeg_warning =
     [Print (lit
        ''Warning: FFmpeg not found. You may need to install FFmpeg for audio conversion.''),
      Print (lit ''Download from: https://ffmpeg.org/download.html'' @ [newline])]"

definition banner :: "event list" where
  "banner =
     [Print (lit ''=== YouTube to MP3 Downloader ===''),
      Print (lit
        ''This script downloads audio from YouTube videos and converts them to MP3.''),
      Print (lit ''Press Enter without a URL to exit.'' @ [newline])]"

definition summary :: "int \<Rightarrow> event list" where
  "summary n =
     [Print (newline # lit ''Download session completed. Total files downloaded: '' @
             str_int n),
      Print (lit ''Thank you for using YouTube to MP3 Downloader!'')]"

definition probe_ffmpeg :: "pyexn option \<Rightarrow> pyexn + event list" where
  \<comment> \<open>the \<open>try\<close> around \<open>subprocess.run\<close>; the argument is what the call raises, if anything\<close>
  "probe_ffmpeg ffmpeg =
     (case ffmpeg of
        None \<Rightarrow> Inr [FfmpegProbe]
      | Some e \<Rightarrow>
          if exn_class e = CalledProcessError \<or> exn_class e = FileNotFoundError
          then Inr (FfmpegProbe # ffmpeg_warning)
          else Inl e)"

definition main ::
  "'w fetch_service \<Rightarrow> 'w file_system \<Rightarrow> pyexn option \<Rightarrow> 'w \<Rightarrow> script
     \<Rightarrow> pyexn option \<times> event list" where
  \<comment> \<open>\<open>Some e\<close> in the result: \<open>e\<close> leaves \<open>main\<close>\<close>
  "main svc fsys ffmpeg w ins =
     (case get_download_path fsys w ins of
        (Returned dpath, evs1, rest, w1) \<Rightarrow>
          (let evs2 = banner @ evs1 @
                 [Print (lit ''Download path set to: '' @ dpath @ [newline])]
           in case probe_ffmpeg ffmpeg of
                Inl e \<Rightarrow> (Some e, evs2 @ [FfmpegProbe])
              | Inr evs3 \<Rightarrow>
                  (case session_loop svc \<lparr>download_path = dpath, downloaded_count = 0\<rparr> w1 rest of
                     (Ended, st, evs4, w2) \<Rightarrow>
                       (None, evs2 @ evs3 @ evs4 @ summary (downloaded_count st))
                   | (AwaitingURL, st, evs4, w2) \<Rightarrow> (None, evs2 @ evs3 @ evs4)
                   | (Aborted e, st, evs4, w2) \<Rightarrow> (Some e, evs2 @ evs3 @ evs4)))
      | (Raised e, evs1, rest, w1) \<Rightarrow> (Some e, banner @ evs1)
      | (Retry, evs1, rest, w1) \<Rightarrow> (None, banner @ evs1))"

datatype outcome = Exited int | Uncaught pyexn

fun exit_nonzero :: "outcome \<Rightarrow> bool" where
  \<comment> \<open>an exception nobody catches ends the interpreter with a non-zero status\<close>
  "exit_nonzero (Exited n) = (n \<noteq> 0)"
| "exit_nonzero (Uncaught e) = True"

definition program ::
  "pyexn option \<Rightarrow> 'w fetch_service \<Rightarrow> 'w file_system \<Rightarrow> pyexn option \<Rightarrow> 'w \<Rightarrow> script
     \<Rightarrow> outcome \<times> event list" where
  \<comment> \<open>the module run as a script; \<open>import_yt_dlp\<close> is what \<open>import yt_dlp\<close> raises, if anything\<close>
  "program import_yt_dlp svc fsys ffmpeg w ins =
     (case import_yt_dlp of
        Some e \<Rightarrow>
          if exn_class e = ImportError then
            (Exited 1,
             [Print (lit ''Error: yt-dlp is not installed.''),
              Print (lit ''Please install it using: pip install yt-dlp'')])
          else (Uncaught e, [])
      | None \<Rightarrow>
          (case main svc fsys ffmpeg w ins of
             (None, evs) \<Rightarrow> (Exited 0, evs)
           | (Some e, evs) \<Rightarrow> (Uncaught e, evs)))"

section \<open>What the library calls promise\<close>

text \<open>
  Two promises of pathlib that two of the statements below are relative to: the path
  \<open>resolve()\<close> returns is normalized, and after \<open>mkdir(parents=True)\<close> has returned, the
  path and everything above it, below the root, are directories.
\<close>

definition normal_segment :: "ustr \<Rightarrow> bool" where
  \<comment> \<open>a segment of a resolved path: a name, not empty, not \<open>.\<close> or \<open>..\<close>, without a slash\<close>
  "normal_segment seg =
     (seg \<noteq> [] \<and> seg \<noteq> lit ''.'' \<and> seg \<noteq> lit ''..'' \<and> 0x2F \<notin> set seg)"

definition normalized :: "path \<Rightarrow> bool" where
  "normalized p = list_all normal_segment p"

definition resolve_normalizes :: "'w file_system \<Rightarrow> bool" where
  "resolve_normalizes fsys =
     (\<forall>s w p w'. path_resolve fsys s w = (Inr p, w') \<longrightarrow> normalized p)"

definition mkdir_makes_parents :: "'w file_system \<Rightarrow> bool" where
  "mkdir_makes_parents fsys =
     (\<forall>p exist_ok w w'. path_mkdir fsys p True exist_ok w = (None, w') \<longrightarrow>
        (\<forall>n. 0 < n \<and> n \<le> length p \<longrightarrow>
           fst (path_is_dir fsys (take n p) w') = Inr True))"


section \<open>A reference file system\<close>

text \<open>
  One outside world to evaluate the statements on: a POSIX file system without
  symbolic links, as a map from the paths that exist to what is there; the flag of a
  node says whether the process may write to it. Paths are resolved by their text
  alone, from a working directory; a text with a NUL in it makes \<open>resolve()\<close> raise
  \<open>ValueError\<close>. Directories are created from the top down, writable or not as the
  umask has it, so that a creation can fail below a directory it has just made.
\<close>

datatype node = Dir bool | File bool

type_synonym fs = "path \<rightharpoonup> node"

fun split_on :: "nat \<Rightarrow> ustr \<Rightarrow> ustr list" where
  \<comment> \<open>\<open>s.split(sep)\<close>\<close>
  "split_on sep [] = [[]]"
| "split_on sep (c # cs) =
     (if c = sep then [] # split_on sep cs
      else (case split_on sep cs of [] \<Rightarrow> [[c]] | s # ss \<Rightarrow> (c # s) # ss))"

definition resolve_step :: "path \<Rightarrow> ustr \<Rightarrow> path" where
  "resolve_step stack seg =
     (if seg = [] \<or> seg = lit ''.'' then stack
      else if seg = lit ''..'' then butlast stack
      else stack @ [seg])"

definition lexical_resolve :: "path \<Rightarrow> ustr \<Rightarrow> path" where
  "lexical_resolve cwd s =
     foldl resolve_step (if starts_with (lit ''/'') s then [] else cwd) (split_on 0x2F s)"

definition os_error :: "exn_class \<Rightarrow> ustr \<Rightarrow> path \<Rightarrow> pyexn" where
  "os_error cls what p = PyExn cls (what @ lit '': '' @ quoted (path_str p))"

fun make_dirs :: "bool \<Rightarrow> path \<Rightarrow> path \<Rightarrow> ustr list \<Rightarrow> fs \<Rightarrow> pyexn option \<times> fs" where
  \<comment> \<open>\<open>make_dirs umask_w full done segs\<close>: below the directory \<open>done\<close>, make what is missing of
      \<open>segs\<close>; \<open>full\<close> is the whole path, for the error text\<close>
  "make_dirs uw full done [] fs = (None, fs)"
| "make_dirs uw full done (seg # segs) fs =
     (case fs (done @ [seg]) of
        Some (Dir w) \<Rightarrow> make_dirs uw full (done @ [seg]) segs fs
      | Some (File w) \<Rightarrow>
          (Some (if segs = []
                 then os_error FileExistsError (lit ''[Errno 17] File exists'') full
                 else os_error NotADirectoryError (lit ''[Errno 20] Not a directory'') full),
           fs)
      | None \<Rightarrow>
          (case fs done of
             Some (Dir True) \<Rightarrow>
               make_dirs uw full (done @ [seg]) segs (fs(done @ [seg] \<mapsto> Dir uw))
           | _ \<Rightarrow>
               (Some (os_error PermissionError (lit ''[Errno 13] Permission denied'')
                        (done @ [seg])),
                fs)))"

definition mkdir_one :: "bool \<Rightarrow> path \<Rightarrow> fs \<Rightarrow> pyexn option \<times> fs" where
  \<comment> \<open>\<open>os.mkdir(p)\<close>\<close>
  "mkdir_one uw p fs =
     (if fs p \<noteq> None \<or> p = [] then
        (Some (os_error FileExistsError (lit ''[Errno 17] File exists'') p), fs)
      else
        (case fs (butlast p) of
           None \<Rightarrow>
             (Some (os_error FileNotFoundError (lit ''[Errno 2] No such file or directory'') p),
              fs)
         | Some (File w) \<Rightarrow>
             (Some (os_error NotADirectoryError (lit ''[Errno 20] Not a directory'') p), fs)
         | Some (Dir w) \<Rightarrow>
             if w then (None, fs(p \<mapsto> Dir uw))
             else (Some (os_error PermissionError (lit ''[Errno 13] Permission denied'') p),
                   fs)))"

definition ref_fs :: "path \<Rightarrow> bool \<Rightarrow> fs file_system" where
  \<comment> \<open>the calls, for a working directory and a umask that leaves new directories writable
      or not\<close>
  "ref_fs cwd uw =
     \<lparr> path_resolve =
         (\<lambda>s fs. if 0 \<in> set s
                  then (Inl (PyExn ValueError (lit ''embedded null byte'')), fs)
                  else (Inr (lexical_resolve cwd s), fs)),
       path_exists = (\<lambda>p fs. (Inr (fs p \<noteq> None), fs)),
       path_is_dir = (\<lambda>p fs. (Inr (case fs p of Some (Dir w) \<Rightarrow> True | _ \<Rightarrow> False), fs)),
       os_access_w =
         (\<lambda>p fs. (Inr (case fs p of Some (Dir w) \<Rightarrow> w | Some (File w) \<Rightarrow> w | None \<Rightarrow> False),
                   fs)),
       path_mkdir =
         (\<lambda>p parents exist_ok fs.
            if \<not> exist_ok \<and> fs p \<noteq> None then
              (Some (os_error FileExistsError (lit ''[Errno 17] File exists'') p), fs)
            else if parents then make_dirs uw p [] p fs
            else if (case fs p of Some (Dir w) \<Rightarrow> True | _ \<Rightarrow> False) then (None, fs)
            else mkdir_one uw p fs) \<rparr>"

section \<open>Example environments\<close>

definition example_info :: info where
  "example_info = [lit ''title'' \<mapsto> VStr (lit ''Song''), lit ''duration'' \<mapsto> VInt 215]"

definition example_service :: "'w fetch_service" where
  \<comment> \<open>every call succeeds\<close>
  "example_service =
     \<lparr> new_ydl = (\<lambda>opts w. (None, w)),
       extract_info = (\<lambda>url w. (Inr example_info, w)),
       download = (\<lambda>urls w. (None, w)) \<rparr>"

definition offline_service :: "'w fetch_service" where
  \<comment> \<open>metadata retrieval fails with an error of the library\<close>
  "offline_service =
     \<lparr> new_ydl = (\<lambda>opts w. (None, w)),
       extract_info =
         (\<lambda>url w. (Inl (PyExn (OtherException (lit ''DownloadError''))
                            (lit ''network unreachable'')), w)),
       download = (\<lambda>urls w. (None, w)) \<rparr>"

definition interrupted_service :: "'w fetch_service" where
  \<comment> \<open>the download is interrupted from the keyboard\<close>
  "interrupted_service =
     \<lparr> new_ydl = (\<lambda>opts w. (None, w)),
       extract_info = (\<lambda>url w. (Inr example_info, w)),
       download = (\<lambda>urls w. (Some (PyExn KeyboardInterrupt []), w)) \<rparr>"

definition exiting_service :: "'w fetch_service" where
  \<comment> \<open>the download ends in \<open>sys.exit\<close>\<close>
  "exiting_service =
     \<lparr> new_ydl = (\<lambda>opts w. (None, w)),
       extract_info = (\<lambda>url w. (Inr example_info, w)),
       download = (\<lambda>urls w. (Some (PyExn SystemExit (lit ''1'')), w)) \<rparr>"

definition live_service :: "'w fetch_service" where
  \<comment> \<open>the metadata carries no duration\<close>
  "live_service =
     \<lparr> new_ydl = (\<lambda>opts w. (None, w)),
       extract_info =
         (\<lambda>url w. (Inr [lit ''title'' \<mapsto> VStr (lit ''Live''), lit ''duration'' \<mapsto> VNone], w)),
       download = (\<lambda>urls w. (None, w)) \<rparr>"

definition example_fs :: fs where
  "example_fs =
     [[] \<mapsto> Dir True,
      [lit ''tmp''] \<mapsto> Dir True,
      [lit ''etc''] \<mapsto> Dir False,
      [lit ''tmp'', lit ''notes''] \<mapsto> File True]"

definition example_session :: session where
  "example_session = \<lparr> download_path = lit ''/tmp'', downloaded_count = 4 \<rparr>"

lemmas example_defs = example_service_def offline_service_def interrupted_service_def
  exiting_service_def live_service_def example_info_def example_session_def

lemmas string_defs = strip_def is_space_def lower_def char_lower_def starts_with_def valid_url_def

lemmas dispatch_defs = download_audio_def try_body_def duration_lines_def dict_get_def

lemmas text_defs = fmt_02d_def str_int_def str_nat.simps digit_char_def

lemmas path_defs = path_attempt_def confirm_create_def path_checks_def path_str_def

lemmas ref_defs = ref_fs_def lexical_resolve_def resolve_step_def example_fs_def

section \<open>Evaluation\<close>

lemmas session_defs = program_def main_def probe_ffmpeg_def loop_body_def banner_def summary_def
  url_prompt_def path_prompt_def eof_error_def newline_def error_line_def cross_mark_def
  check_mark_def

lemma normalized_root: "normalized []"
  by (simp add: normalized_def)

lemmas prompt_defs = path_prompt_def create_prompt_def quoted_def empty_path_msg_def
  not_dir_msg_def not_writable_msg_def eof_error_def

section \<open>Facts about the string operations\<close>

lemma strip_all_space: "list_all is_space s \<Longrightarrow> strip s = []"
  by (auto simp: strip_def list_all_iff dropWhile_eq_Nil_conv dest: set_dropWhileD)

lemma dropWhile_id: "xs = [] \<or> \<not> P (hd xs) \<Longrightarrow> dropWhile P xs = xs"
  by (cases xs) auto

lemma strip_ends: "strip s = [] \<or> (\<not> is_space (hd (strip s)) \<and> \<not> is_space (last (strip s)))"
proof -
  let ?u = "dropWhile is_space s"
  let ?r = "dropWhile is_space (rev ?u)"
  show ?thesis
  proof (cases "?r = []")
    case True
    then show ?thesis by (simp add: strip_def)
  next
    case False
    then have h: "\<not> is_space (hd ?r)" by (rule hd_dropWhile)
    have u: "?u \<noteq> []"
    proof
      assume a: "?u = []"
      have "?r = []" unfolding a by simp
      with False show False by blast
    qed
    then have hu: "\<not> is_space (hd ?u)" by (rule hd_dropWhile)
    have "last ?r = last (rev ?u)"
      using False by (metis last_appendR takeWhile_dropWhile_id)
    then have "last ?r = hd ?u" using u by (simp add: last_rev)
    with h hu False show ?thesis by (simp add: strip_def hd_rev last_rev)
  qed
qed

lemma strip_idem: "strip (strip s) = strip s"
proof (cases "strip s = []")
  case True
  have "strip [] = []" by (simp add: strip_def)
  with True show ?thesis by simp
next
  case False
  with strip_ends [of s] have a: "\<not> is_space (hd (strip s))" and b: "\<not> is_space (last (strip s))"
    by auto
  have 1: "dropWhile is_space (strip s) = strip s"
    using a by (intro dropWhile_id) simp
  have 2: "dropWhile is_space (rev (strip s)) = rev (strip s)"
    using b False by (intro dropWhile_id) (simp add: hd_rev)
  show ?thesis
    unfolding strip_def [of "strip s"] 1 2 by simp
qed

lemma strip_decomp:
  "\<exists>a b. s = a @ strip s @ b \<and> list_all is_space a \<and> list_all is_space b"
proof -
  let ?u = "dropWhile is_space s"
  let ?a = "takeWhile is_space s"
  let ?b = "rev (takeWhile is_space (rev ?u))"
  have 1: "s = ?a @ ?u" by simp
  have "rev (takeWhile is_space (rev ?u) @ dropWhile is_space (rev ?u)) = ?u"
    by (simp only: takeWhile_dropWhile_id rev_rev_ident)
  then have 2: "?u = strip s @ ?b" by (simp only: rev_append strip_def)
  have a: "list_all is_space ?a" by (auto simp: list_all_iff dest: set_takeWhileD)
  have b: "list_all is_space ?b" by (auto simp: list_all_iff dest: set_takeWhileD)
  from 1 2 have "s = ?a @ strip s @ ?b" by simp
  with a b show ?thesis by blast
qed

lemma strip_empty_iff: "(strip s = []) = list_all is_space s"
proof
  assume e: "strip s = []"
  from strip_decomp [of s] obtain a b where
    "s = a @ strip s @ b" "list_all is_space a" "list_all is_space b" by blast
  with e have "s = a @ b" "list_all is_space a" "list_all is_space b" by simp_all
  then show "list_all is_space s" by simp
next
  assume "list_all is_space s"
  then show "strip s = []" by (rule strip_all_space)
qed

lemma loop_body_ended_iff: "(fst (loop_body svc st w line) = Ended) = (strip line = [])"
  by (auto simp: loop_body_def Let_def split: prod.splits option.splits)

section \<open>The session loop: counting, rejecting, ending\<close>

lemma session_loop_prompts:
  "\<exists>evs. fst (snd (snd (session_loop svc st w ins))) = Prompt url_prompt # evs"
proof (cases ins)
  case Nil
  then show ?thesis by simp
next
  case (Cons a rest)
  then show ?thesis
    by (cases a) (auto split: prod.splits loop_state.splits)
qed

text \<open>
  C1. A line that is accepted (not empty once stripped, and naming one of the two
  domains) takes the loop back to the prompt with the counter one higher, whether the
  dispatch succeeded or raised an error that \<open>download_audio\<close> caught. The one other
  way out of the pass is an exception that \<open>except Exception\<close> does not catch.
\<close>

theorem accepted_url_counts_once:
  assumes "strip line \<noteq> []" and "valid_url (strip line)"
  shows "(case loop_body svc st w line of
            (AwaitingURL, st', evs, w') \<Rightarrow>
              downloaded_count st' = downloaded_count st + 1 \<and>
              download_path st' = download_path st
          | (Ended, st', evs, w') \<Rightarrow> False
          | (Aborted e, st', evs, w') \<Rightarrow> \<not> is_Exception (exn_class e))"
  using assms
  by (auto simp: loop_body_def download_audio_def Let_def
      split: prod.splits sum.splits option.splits if_splits)

theorem accepted_url_counts_once_witness:
  "fst (loop_body offline_service example_session () (lit '' https://YouTu.be/abc '')) =
     AwaitingURL \<and>
   downloaded_count
     (fst (snd (loop_body offline_service example_session ()
        (lit '' https://YouTu.be/abc '')))) = 5 \<and>
   fst (loop_body example_service example_session () (lit '' https://YouTu.be/abc '')) =
     AwaitingURL \<and>
   downloaded_count
     (fst (snd (loop_body example_service example_session ()
        (lit '' https://YouTu.be/abc '')))) = 5"
  using accepted_url_counts_once [where line = "lit '' https://YouTu.be/abc ''"
          and svc = offline_service and st = example_session and w = "()"]
        accepted_url_counts_once [where line = "lit '' https://YouTu.be/abc ''"
          and svc = example_service and st = example_session and w = "()"]
  by (simp add: string_defs loop_body_def dispatch_defs example_defs Let_def)

text \<open>
  C3. A line that is not empty once stripped and whose lower-case form contains neither
  \<open>youtube.com\<close> nor \<open>youtu.be\<close>: the pass prints the one rejection line, calls nothing
  of the fetch service, and leaves the session (counter and path) and the outside
  world as they were; the loop goes on from there, and what it does next starts with
  the URL prompt.
\<close>

theorem rejected_url_reprompts:
  assumes "strip line \<noteq> []"
    and "\<not> contains (lit ''youtube.com'') (lower (strip line))"
    and "\<not> contains (lit ''youtu.be'') (lower (strip line))"
  shows "loop_body svc st w line =
           (AwaitingURL, st, [Print (lit ''Please enter a valid YouTube URL.'')], w) \<and>
         filter is_dispatch (fst (snd (snd (loop_body svc st w line)))) = [] \<and>
         session_loop svc st w (Inr line # rest) =
           (case session_loop svc st w rest of
              (r, st', evs, w') \<Rightarrow>
                (r, st',
                 Prompt url_prompt # Print (lit ''Please enter a valid YouTube URL.'') # evs,
                 w')) \<and>
         (\<exists>evs. fst (snd (snd (session_loop svc st w rest))) = Prompt url_prompt # evs)"
  using assms session_loop_prompts [of svc st w rest]
  by (simp add: loop_body_def valid_url_def split: prod.splits)

theorem rejected_url_reprompts_witness:
  "loop_body example_service example_session () ([0xA0] @ lit ''https://example.com/video '') =
     (AwaitingURL, example_session, [Print (lit ''Please enter a valid YouTube URL.'')], ()) \<and>
   session_loop example_service example_session ()
       [Inr ([0xA0] @ lit ''https://example.com/video ''), Inr []] =
     (Ended, example_session,
      [Prompt url_prompt, Print (lit ''Please enter a valid YouTube URL.''), Prompt url_prompt],
      ())"
  using rejected_url_reprompts [where line = "[0xA0] @ lit ''https://example.com/video ''"
          and svc = example_service and st = example_session and w = "()" and rest = "[Inr []]"]
  by (simp add: string_defs loop_body_def)

text \<open>
  C10. The loop looks at the stripped line only. Stripping removes whitespace at both
  ends and nothing else: the line is its stripped form between two runs of whitespace,
  and the stripped form neither starts nor ends with whitespace. So a pass ends the
  session exactly when the line is whitespace throughout; then nothing is printed, no
  URL is rejected, the counter stays and the lines after it are not read.
\<close>

theorem blank_line_ends_session:
  "loop_body svc st w line = loop_body svc st w (strip line) \<and>
   (\<exists>a b. line = a @ strip line @ b \<and> list_all is_space a \<and> list_all is_space b) \<and>
   (strip line \<noteq> [] \<longrightarrow> \<not> is_space (hd (strip line)) \<and> \<not> is_space (last (strip line))) \<and>
   (strip line = []) = list_all is_space line \<and>
   (fst (loop_body svc st w line) = Ended) = list_all is_space line \<and>
   (list_all is_space line \<longrightarrow>
      loop_body svc st w line = (Ended, st, [], w) \<and>
      session_loop svc st w (Inr line # rest) = (Ended, st, [Prompt url_prompt], w))"
proof (intro conjI impI)
  show "loop_body svc st w line = loop_body svc st w (strip line)"
    by (simp add: loop_body_def strip_idem)
  show "\<exists>a b. line = a @ strip line @ b \<and> list_all is_space a \<and> list_all is_space b"
    by (rule strip_decomp)
  show "(strip line = []) = list_all is_space line"
    by (rule strip_empty_iff)
  show "(fst (loop_body svc st w line) = Ended) = list_all is_space line"
    by (simp only: loop_body_ended_iff strip_empty_iff)
next
  assume "strip line \<noteq> []"
  with strip_ends [of line]
  show "\<not> is_space (hd (strip line))" and "\<not> is_space (last (strip line))"
    by auto
next
  assume "list_all is_space line"
  then have e: "strip line = []" by (rule strip_all_space)
  then show "loop_body svc st w line = (Ended, st, [], w)"
    by (simp add: loop_body_def)
  with e show "session_loop svc st w (Inr line # rest) = (Ended, st, [Prompt url_prompt], w)"
    by simp
qed

theorem blank_line_ends_session_witness:
  "list_all is_space [0x20, 0x09, 0xA0, 0x3000] \<and>
   loop_body example_service example_session () [0x20, 0x09, 0xA0, 0x3000] =
     (Ended, example_session, [], ()) \<and>
   session_loop example_service example_session ()
       [Inr [0x20, 0x09, 0xA0, 0x3000], Inr (lit ''https://youtu.be/x'')] =
     (Ended, example_session, [Prompt url_prompt], ()) \<and>
   strip ([0xA0, 0x20] @ lit ''a b'' @ [0x09]) = lit ''a b'' \<and>
   fst (loop_body example_service example_session () ([0xA0, 0x20] @ lit ''a b'' @ [0x09])) =
     AwaitingURL"
  using blank_line_ends_session [where line = "[0x20, 0x09, 0xA0, 0x3000]"
          and svc = example_service and st = example_session and w = "()"
          and rest = "[Inr (lit ''https://youtu.be/x'')]"]
        blank_line_ends_session [where line = "[0xA0, 0x20] @ lit ''a b'' @ [0x09]"
          and svc = example_service and st = example_session and w = "()" and rest = "[]"]
  by (simp add: string_defs loop_body_def)

section \<open>Start of the module\<close>

text \<open>
  C7. When \<open>import yt_dlp\<close> raises \<open>ImportError\<close>, the program prints the two lines that
  say how to install the library and exits with status 1. Nothing is read from standard
  input and nothing else happens: the whole trace is these two prints, with no prompt.
\<close>

theorem missing_library_exits:
  assumes "exn_class e = ImportError"
  shows "program (Some e) svc fsys ffmpeg w ins =
           (Exited 1,
            [Print (lit ''Error: yt-dlp is not installed.''),
             Print (lit ''Please install it using: pip install yt-dlp'')]) \<and>
         exit_nonzero (fst (program (Some e) svc fsys ffmpeg w ins)) \<and>
         filter (\<lambda>ev. \<not> is_print ev) (snd (program (Some e) svc fsys ffmpeg w ins)) = []"
  using assms by (simp add: program_def)

theorem missing_library_exits_witness:
  "program (Some (PyExn ImportError (lit ''No module named yt_dlp''))) example_service
       (ref_fs [] True) None example_fs
       [Inr (lit ''/tmp''), Inr (lit ''https://youtu.be/x''), Inr []] =
     (Exited 1,
      [Print (lit ''Error: yt-dlp is not installed.''),
       Print (lit ''Please install it using: pip install yt-dlp'')])"
  using missing_library_exits [where e = "PyExn ImportError (lit ''No module named yt_dlp'')"
          and svc = example_service and fsys = "ref_fs [] True" and ffmpeg = None
          and w = example_fs
          and ins = "[Inr (lit ''/tmp''), Inr (lit ''https://youtu.be/x''), Inr []]"]
  by simp

section \<open>Dispatch\<close>

lemma try_body_head: "\<exists>evs. fst (snd (try_body svc opts url w)) = YoutubeDL opts # evs"
  by (simp add: try_body_def Let_def split: prod.splits option.splits sum.splits)

lemma download_audio_head:
  "\<exists>evs. fst (snd (download_audio svc url dpath w)) = YoutubeDL (make_ydl_opts dpath) # evs"
proof -
  obtain evs where
    e: "fst (snd (try_body svc (make_ydl_opts dpath) url w)) = YoutubeDL (make_ydl_opts dpath) # evs"
    using try_body_head [of svc "make_ydl_opts dpath" url w] by blast
  then show ?thesis
    by (auto simp: download_audio_def Let_def split: prod.splits sum.splits)
qed

lemma path_str_last:
  assumes "normalized p" and "p \<noteq> []"
  shows "path_str p \<noteq> [] \<and> last (path_str p) \<noteq> 0x2F"
proof -
  from assms obtain q seg where p: "p = q @ [seg]" by (metis rev_exhaust)
  with assms(1) have "normal_segment seg" by (simp add: normalized_def)
  then have s: "seg \<noteq> []" "last seg \<noteq> 0x2F"
    by (auto simp: normal_segment_def dest: last_in_set)
  from p have "path_str p = concat (map (\<lambda>seg. 0x2F # seg) q) @ 0x2F # seg"
    by (simp add: path_str_def)
  with s show ?thesis by simp
qed

lemma path_str_snoc:
  "p \<noteq> [] \<Longrightarrow> path_str (p @ [seg]) = path_str p @ 0x2F # seg"
  by (simp add: path_str_def)

lemma outtmpl_in_directory:
  assumes "normalized p"
  shows "outtmpl (make_ydl_opts (path_str p)) = path_str (p @ [lit ''%(title)s.%(ext)s''])"
proof (cases "p = []")
  case True
  then show ?thesis
    by (simp add: make_ydl_opts_def os_path_join_def path_str_def starts_with_def)
next
  case False
  with assms have "path_str p \<noteq> [] \<and> last (path_str p) \<noteq> 0x2F" by (rule path_str_last)
  then have "os_path_join (path_str p) (lit ''%(title)s.%(ext)s'') =
      path_str p @ 0x2F # lit ''%(title)s.%(ext)s''"
    by (simp add: os_path_join_def starts_with_def)
  with False show ?thesis
    by (simp add: make_ydl_opts_def path_str_snoc)
qed

lemma loop_body_path: "download_path (fst (snd (loop_body svc st w line))) = download_path st"
  by (simp add: loop_body_def Let_def split: prod.splits option.splits)

lemma loop_body_dispatches:
  assumes "strip line \<noteq> []" and "valid_url (strip line)"
  shows "\<exists>evs. fst (snd (snd (loop_body svc st w line))) =
           Print (newline # lit ''Processing: '' @ strip line) #
           YoutubeDL (make_ydl_opts (download_path st)) # evs"
proof -
  obtain evs where
    "fst (snd (download_audio svc (strip line) (download_path st) w)) =
       YoutubeDL (make_ydl_opts (download_path st)) # evs"
    using download_audio_head [of svc "strip line" "download_path st" w] by blast
  with assms show ?thesis
    by (auto simp: loop_body_def Let_def split: prod.splits option.splits)
qed

section \<open>What leaves download_audio\<close>





section \<open>Metadata lines\<close>

lemma str_nat_small: "n < 10 \<Longrightarrow> str_nat n = [digit_char n]"
  by (simp add: str_nat.simps)

lemma str_nat_two:
  "10 \<le> n \<Longrightarrow> n < 100 \<Longrightarrow> str_nat n = [digit_char (n div 10), digit_char (n mod 10)]"
  by (subst str_nat.simps) (simp add: str_nat_small)

lemma digit_char_0: "digit_char 0 = 0x30"
  by (simp add: digit_char_def)

lemma fmt_02d_two_digits:
  assumes "0 \<le> n" and "n < 100"
  shows "fmt_02d n = [digit_char (nat n div 10), digit_char (nat n mod 10)]"
proof (cases "nat n < 10")
  case True
  with assms show ?thesis
    by (simp add: fmt_02d_def str_int_def str_nat_small digit_char_0)
next
  case False
  with assms have "10 \<le> nat n" "nat n < 100" by auto
  then have "str_nat (nat n) = [digit_char (nat n div 10), digit_char (nat n mod 10)]"
    by (rule str_nat_two)
  with assms show ?thesis
    by (simp add: fmt_02d_def str_int_def)
qed

lemma duration_mm_ss:
  assumes "0 < d" and "d < 6000"
  shows "fmt_02d (d div 60) @ lit '':'' @ fmt_02d (d mod 60) =
         [digit_char (nat (d div 60) div 10), digit_char (nat (d div 60) mod 10), 0x3A,
          digit_char (nat (d mod 60) div 10), digit_char (nat (d mod 60) mod 10)]"
proof -
  from assms have "0 \<le> d div 60" "d div 60 < 100" by auto
  then have m: "fmt_02d (d div 60) =
      [digit_char (nat (d div 60) div 10), digit_char (nat (d div 60) mod 10)]"
    by (rule fmt_02d_two_digits)
  have "0 \<le> d mod 60" "d mod 60 < 100" by auto
  then have s: "fmt_02d (d mod 60) =
      [digit_char (nat (d mod 60) div 10), digit_char (nat (d mod 60) mod 10)]"
    by (rule fmt_02d_two_digits)
  show ?thesis by (simp add: m s)
qed

text \<open>
  C8, as the code has it. When the service is constructed and the metadata retrieved,
  the title (or \<open>Unknown\<close> when the metadata has none) is printed first. The duration
  line follows only when the duration is a non-zero integer; it shows minutes and
  seconds, each padded with zeros to at least two digits, and both lines come before
  the download is started. With no duration, or a duration of zero, the download
  starts right after the title line. For a duration under 100 minutes the text is
  exactly two digits, a colon, two digits.
\<close>

theorem metadata_printed_before_download:
  assumes "new_ydl svc (make_ydl_opts dpath) w = (None, w1)"
    and "extract_info svc url w1 = (Inr info, w2)"
  shows
   "(\<forall>d. dict_get info (lit ''duration'') (VInt 0) = VInt d \<and> d \<noteq> 0 \<longrightarrow>
       (\<exists>rest. fst (snd (download_audio svc url dpath w)) =
          [YoutubeDL (make_ydl_opts dpath), ExtractInfo url,
           Print (lit ''Title: '' @
                  py_str (dict_get info (lit ''title'') (VStr (lit ''Unknown'')))),
           Print (lit ''Duration: '' @ fmt_02d (d div 60) @ lit '':'' @ fmt_02d (d mod 60)),
           Print (lit ''Downloading and converting to MP3...''), Download [url]] @ rest)) \<and>
    (\<not> truthy (dict_get info (lit ''duration'') (VInt 0)) \<longrightarrow>
       (\<exists>rest. fst (snd (download_audio svc url dpath w)) =
          [YoutubeDL (make_ydl_opts dpath), ExtractInfo url,
           Print (lit ''Title: '' @
                  py_str (dict_get info (lit ''title'') (VStr (lit ''Unknown'')))),
           Print (lit ''Downloading and converting to MP3...''), Download [url]] @ rest)) \<and>
    (\<forall>d. 0 < d \<and> d < 6000 \<longrightarrow>
       fmt_02d (d div 60) @ lit '':'' @ fmt_02d (d mod 60) =
         [digit_char (nat (d div 60) div 10), digit_char (nat (d div 60) mod 10), 0x3A,
          digit_char (nat (d mod 60) div 10), digit_char (nat (d mod 60) mod 10)])"
proof (intro conjI allI impI)
  fix d
  assume "dict_get info (lit ''duration'') (VInt 0) = VInt d \<and> d \<noteq> 0"
  then have dl: "duration_lines (dict_get info (lit ''duration'') (VInt 0)) =
      Inr [Print (lit ''Duration: '' @ fmt_02d (d div 60) @ lit '':'' @ fmt_02d (d mod 60))]"
    by (simp add: duration_lines_def)
  show "\<exists>rest. fst (snd (download_audio svc url dpath w)) =
          [YoutubeDL (make_ydl_opts dpath), ExtractInfo url,
           Print (lit ''Title: '' @
                  py_str (dict_get info (lit ''title'') (VStr (lit ''Unknown'')))),
           Print (lit ''Duration: '' @ fmt_02d (d div 60) @ lit '':'' @ fmt_02d (d mod 60)),
           Print (lit ''Downloading and converting to MP3...''), Download [url]] @ rest"
    using assms dl
    by (cases "download svc [url] w2")
       (auto simp: download_audio_def try_body_def Let_def split: option.splits)
next
  assume "\<not> truthy (dict_get info (lit ''duration'') (VInt 0))"
  then have dl: "duration_lines (dict_get info (lit ''duration'') (VInt 0)) = Inr []"
    by (simp add: duration_lines_def)
  show "\<exists>rest. fst (snd (download_audio svc url dpath w)) =
          [YoutubeDL (make_ydl_opts dpath), ExtractInfo url,
           Print (lit ''Title: '' @
                  py_str (dict_get info (lit ''title'') (VStr (lit ''Unknown'')))),
           Print (lit ''Downloading and converting to MP3...''), Download [url]] @ rest"
    using assms dl
    by (cases "download svc [url] w2")
       (auto simp: download_audio_def try_body_def Let_def split: option.splits)
next
  fix d :: int
  assume "0 < d \<and> d < 6000"
  then have "0 < d" and "d < 6000" by auto
  then show "fmt_02d (d div 60) @ lit '':'' @ fmt_02d (d mod 60) =
         [digit_char (nat (d div 60) div 10), digit_char (nat (d div 60) mod 10), 0x3A,
          digit_char (nat (d mod 60) div 10), digit_char (nat (d mod 60) mod 10)]"
    by (rule duration_mm_ss)
qed

theorem metadata_printed_before_download_witness:
  "fst (snd (download_audio example_service (lit ''https://youtu.be/x'') (lit ''/tmp'') ())) =
     [YoutubeDL (make_ydl_opts (lit ''/tmp'')), ExtractInfo (lit ''https://youtu.be/x''),
      Print (lit ''Title: Song''), Print (lit ''Duration: 03:35''),
      Print (lit ''Downloading and converting to MP3...''),
      Download [lit ''https://youtu.be/x''],
      Print (check_mark @ lit '' Successfully downloaded: Song'')]"
  using metadata_printed_before_download [where svc = example_service
     and dpath = "lit ''/tmp''" and url = "lit ''https://youtu.be/x''" and w = "()"
     and ?w1.0 = "()" and ?w2.0 = "()" and info = example_info]
  by (simp add: dispatch_defs example_service_def example_info_def text_defs Let_def)

text \<open>
  C8 as stated fails: for metadata whose duration is \<open>None\<close> (a live stream) the
  retrieval succeeds and the download is performed, but no duration is printed.
\<close>

theorem no_duration_line_without_duration:
  "download_audio live_service (lit ''https://youtu.be/x'') (lit ''/tmp'') () =
     (None,
      [YoutubeDL (make_ydl_opts (lit ''/tmp'')), ExtractInfo (lit ''https://youtu.be/x''),
       Print (lit ''Title: Live''),
       Print (lit ''Downloading and converting to MP3...''),
       Download [lit ''https://youtu.be/x''],
       Print (check_mark @ lit '' Successfully downloaded: Live'')],
      ())"
  by (simp add: dispatch_defs live_service_def Let_def)

section \<open>How a session ends\<close>


lemma loop_body_awaiting:
  "loop_body svc st w line = (AwaitingURL, st1, evs1, w1) \<Longrightarrow>
     strip line \<noteq> [] \<and>
     downloaded_count st1 = downloaded_count st + (if valid_url (strip line) then 1 else 0) \<and>
     download_path st1 = download_path st"
  by (auto simp: loop_body_def Let_def split: prod.splits option.splits if_splits)










section \<open>The reference file system keeps the promises\<close>

lemma split_on_no_sep: "seg \<in> set (split_on sep s) \<Longrightarrow> sep \<notin> set seg"
proof (induction s arbitrary: seg)
  case Nil
  then show ?case by simp
next
  case (Cons c cs)
  then show ?case
    by (cases "split_on sep cs") (auto split: if_splits)
qed

lemma normalized_butlast: "normalized p \<Longrightarrow> normalized (butlast p)"
  by (auto simp: normalized_def list_all_iff dest: in_set_butlastD)

lemma resolve_step_normalized:
  "normalized stack \<Longrightarrow> 0x2F \<notin> set seg \<Longrightarrow> normalized (resolve_step stack seg)"
  by (auto simp: resolve_step_def normalized_butlast)
     (auto simp: normalized_def normal_segment_def)

lemma foldl_resolve_normalized:
  "normalized stack \<Longrightarrow> \<forall>seg \<in> set segs. 0x2F \<notin> set seg \<Longrightarrow>
     normalized (foldl resolve_step stack segs)"
  by (induction segs arbitrary: stack) (auto simp: resolve_step_normalized)

lemma lexical_resolve_normalized: "normalized cwd \<Longrightarrow> normalized (lexical_resolve cwd s)"
  unfolding lexical_resolve_def
  by (rule foldl_resolve_normalized) (auto simp: normalized_def dest: split_on_no_sep)

lemma ref_fs_resolve_normalizes: "normalized cwd \<Longrightarrow> resolve_normalizes (ref_fs cwd uw)"
  by (auto simp: resolve_normalizes_def ref_fs_def lexical_resolve_normalized split: if_splits)

lemma make_dirs_made:
  "make_dirs uw full done segs fs = (None, fs') \<Longrightarrow>
     (\<forall>n. 0 < n \<and> n \<le> length segs \<longrightarrow> (\<exists>b. fs' (done @ take n segs) = Some (Dir b))) \<and>
     (\<forall>q. length q \<le> length done \<longrightarrow> fs' q = fs q)"
proof (induction segs arbitrary: "done" fs)
  case Nil
  then show ?case by simp
next
  case (Cons seg segs)
  let ?d = "done @ [seg]"
  from Cons.prems obtain fs1 where
    step: "make_dirs uw full ?d segs fs1 = (None, fs')" and
    here: "\<exists>b. fs1 ?d = Some (Dir b)" and
    keep: "\<forall>q. length q \<le> length done \<longrightarrow> fs1 q = fs q"
    by (auto split: option.splits node.splits bool.splits)
  from Cons.IH [OF step] have
    below: "\<forall>n. 0 < n \<and> n \<le> length segs \<longrightarrow> (\<exists>b. fs' (?d @ take n segs) = Some (Dir b))" and
    same: "\<forall>q. length q \<le> length ?d \<longrightarrow> fs' q = fs1 q"
    by simp_all
  have "\<exists>b. fs' (done @ take n (seg # segs)) = Some (Dir b)"
    if n: "0 < n \<and> n \<le> length (seg # segs)" for n
  proof (cases n)
    case 0
    with n show ?thesis by simp
  next
    case (Suc m)
    show ?thesis
    proof (cases m)
      case 0
      with Suc same here show ?thesis by simp
    next
      case (Suc k)
      with \<open>n = Suc m\<close> n below have "\<exists>b. fs' (?d @ take m segs) = Some (Dir b)" by simp
      with \<open>n = Suc m\<close> show ?thesis by simp
    qed
  qed
  moreover have "fs' q = fs q" if "length q \<le> length done" for q
    using that same keep by simp
  ultimately show ?case by blast
qed

lemma ref_fs_mkdir_makes_parents: "mkdir_makes_parents (ref_fs cwd uw)"
  unfolding mkdir_makes_parents_def
proof (intro allI impI)
  fix p exist_ok w w' n
  assume mk: "path_mkdir (ref_fs cwd uw) p True exist_ok w = (None, w')"
    and n: "0 < n \<and> n \<le> length p"
  from mk have "make_dirs uw p [] p w = (None, w')"
    by (simp add: ref_fs_def split: if_splits)
  from make_dirs_made [OF this] n have "\<exists>b. w' (take n p) = Some (Dir b)" by simp
  then show "fst (path_is_dir (ref_fs cwd uw) (take n p) w') = Inr True"
    by (auto simp: ref_fs_def)
qed

section \<open>One pass of get_download_path\<close>

lemma path_attempt_empty:
  "strip line = [] \<Longrightarrow> path_attempt fsys w line rest = (Retry, [Print empty_path_msg], rest, w)"
  by (simp add: path_attempt_def)

lemma path_attempt_resolve_raises:
  "strip line \<noteq> [] \<Longrightarrow> path_resolve fsys (strip line) w = (Inl e, w1) \<Longrightarrow>
     path_attempt fsys w line rest = (Raised e, [], rest, w1)"
  by (simp add: path_attempt_def)

lemma path_attempt_exists_raises:
  "strip line \<noteq> [] \<Longrightarrow> path_resolve fsys (strip line) w = (Inr dp, w1) \<Longrightarrow>
   path_exists fsys dp w1 = (Inl e, w2) \<Longrightarrow>
     path_attempt fsys w line rest = (Raised e, [], rest, w2)"
  by (simp add: path_attempt_def)

lemma path_attempt_existing:
  "strip line \<noteq> [] \<Longrightarrow> path_resolve fsys (strip line) w = (Inr dp, w1) \<Longrightarrow>
   path_exists fsys dp w1 = (Inr True, w2) \<Longrightarrow>
     path_attempt fsys w line rest = path_checks fsys dp [] rest w2"
  by (simp add: path_attempt_def)

lemma path_attempt_missing:
  "strip line \<noteq> [] \<Longrightarrow> path_resolve fsys (strip line) w = (Inr dp, w1) \<Longrightarrow>
   path_exists fsys dp w1 = (Inr False, w2) \<Longrightarrow>
     path_attempt fsys w line rest = confirm_create fsys dp rest w2"
  by (simp add: path_attempt_def)

lemma path_checks_is_dir_raises:
  "path_is_dir fsys dp w = (Inl e, w1) \<Longrightarrow> path_checks fsys dp evs rest w = (Raised e, evs, rest, w1)"
  by (simp add: path_checks_def)

lemma path_checks_not_dir:
  "path_is_dir fsys dp w = (Inr False, w1) \<Longrightarrow>
     path_checks fsys dp evs rest w = (Retry, evs @ [Print not_dir_msg], rest, w1)"
  by (simp add: path_checks_def)

lemma path_checks_access_raises:
  "path_is_dir fsys dp w = (Inr True, w1) \<Longrightarrow> os_access_w fsys dp w1 = (Inl e, w2) \<Longrightarrow>
     path_checks fsys dp evs rest w = (Raised e, evs, rest, w2)"
  by (simp add: path_checks_def)

lemma path_checks_not_writable:
  "path_is_dir fsys dp w = (Inr True, w1) \<Longrightarrow> os_access_w fsys dp w1 = (Inr False, w2) \<Longrightarrow>
     path_checks fsys dp evs rest w = (Retry, evs @ [Print not_writable_msg], rest, w2)"
  by (simp add: path_checks_def)

lemma path_checks_returns:
  "path_is_dir fsys dp w = (Inr True, w1) \<Longrightarrow> os_access_w fsys dp w1 = (Inr True, w2) \<Longrightarrow>
     path_checks fsys dp evs rest w = (Returned (path_str dp), evs, rest, w2)"
  by (simp add: path_checks_def)

lemma path_checks_returned:
  "path_checks fsys dp evs rest w = (Returned s, evs', rest', w') \<Longrightarrow>
     s = path_str dp \<and> evs' = evs \<and> rest' = rest \<and>
     (\<exists>w1. path_is_dir fsys dp w = (Inr True, w1) \<and> os_access_w fsys dp w1 = (Inr True, w'))"
  by (auto simp: path_checks_def split: prod.splits sum.splits if_splits)

lemma confirm_create_declined:
  "\<not> (lower (strip answer) = lit ''y'' \<or> lower (strip answer) = lit ''yes'') \<Longrightarrow>
     confirm_create fsys dp (Inr answer # rest) w = (Retry, [Prompt (create_prompt dp)], rest, w)"
  by (simp add: confirm_create_def Let_def)

lemma confirm_create_made:
  "lower (strip answer) = lit ''y'' \<or> lower (strip answer) = lit ''yes'' \<Longrightarrow>
   path_mkdir fsys dp True True w = (None, w1) \<Longrightarrow>
     confirm_create fsys dp (Inr answer # rest) w =
       path_checks fsys dp
         [Prompt (create_prompt dp), Mkdir dp, Print (lit ''Created directory: '' @ path_str dp)]
         rest w1"
  by (simp add: confirm_create_def Let_def)

lemma confirm_create_failed:
  "lower (strip answer) = lit ''y'' \<or> lower (strip answer) = lit ''yes'' \<Longrightarrow>
   path_mkdir fsys dp True True w = (Some e, w1) \<Longrightarrow> is_Exception (exn_class e) \<Longrightarrow>
     confirm_create fsys dp (Inr answer # rest) w =
       (Retry,
        [Prompt (create_prompt dp), Mkdir dp,
         Print (lit ''Error creating directory: '' @ exn_str e)],
        rest, w1)"
  by (simp add: confirm_create_def Let_def)

lemma confirm_create_returned:
  "confirm_create fsys dp rest w = (Returned s, evs, rest', w') \<Longrightarrow>
     \<exists>answer w1. rest = Inr answer # rest' \<and>
        (lower (strip answer) = lit ''y'' \<or> lower (strip answer) = lit ''yes'') \<and>
        path_mkdir fsys dp True True w = (None, w1) \<and>
        path_checks fsys dp
          [Prompt (create_prompt dp), Mkdir dp, Print (lit ''Created directory: '' @ path_str dp)]
          rest' w1 = (Returned s, evs, rest', w')"
  unfolding confirm_create_def Let_def
  by (auto split: list.splits sum.splits if_splits prod.splits option.splits
      dest: path_checks_returned)

lemma path_attempt_returned:
  assumes "path_attempt fsys w line rest = (Returned s, evs, rest', w')"
  shows "strip line \<noteq> [] \<and>
    (\<exists>dp w1 w2 w3 w4.
       path_resolve fsys (strip line) w = (Inr dp, w1) \<and> s = path_str dp \<and>
       (path_exists fsys dp w1 = (Inr True, w3) \<and> rest' = rest \<or>
        path_exists fsys dp w1 = (Inr False, w2) \<and>
        (\<exists>answer. rest = Inr answer # rest' \<and>
           (lower (strip answer) = lit ''y'' \<or> lower (strip answer) = lit ''yes'') \<and>
           path_mkdir fsys dp True True w2 = (None, w3))) \<and>
       path_is_dir fsys dp w3 = (Inr True, w4) \<and> os_access_w fsys dp w4 = (Inr True, w'))"
proof -
  from assms have ne: "strip line \<noteq> []"
    by (auto simp: path_attempt_def Let_def split: if_splits)
  from assms ne obtain dp w1 where res: "path_resolve fsys (strip line) w = (Inr dp, w1)"
    by (auto simp: path_attempt_def Let_def split: prod.splits sum.splits)
  from assms ne res obtain ex w2 where exi: "path_exists fsys dp w1 = (Inr ex, w2)"
    by (auto simp: path_attempt_def Let_def split: prod.splits sum.splits)
  show ?thesis
  proof (cases ex)
    case True
    with assms ne res exi have "path_checks fsys dp [] rest w2 = (Returned s, evs, rest', w')"
      by (simp add: path_attempt_def)
    from path_checks_returned [OF this] obtain w4 where
      c: "s = path_str dp" "rest' = rest" "path_is_dir fsys dp w2 = (Inr True, w4)"
         "os_access_w fsys dp w4 = (Inr True, w')"
      by blast
    from exi True have "path_exists fsys dp w1 = (Inr True, w2)" by simp
    with c res have "\<exists>dp w1 w2 w3 w4.
       path_resolve fsys (strip line) w = (Inr dp, w1) \<and> s = path_str dp \<and>
       (path_exists fsys dp w1 = (Inr True, w3) \<and> rest' = rest \<or>
        path_exists fsys dp w1 = (Inr False, w2) \<and>
        (\<exists>answer. rest = Inr answer # rest' \<and>
           (lower (strip answer) = lit ''y'' \<or> lower (strip answer) = lit ''yes'') \<and>
           path_mkdir fsys dp True True w2 = (None, w3))) \<and>
       path_is_dir fsys dp w3 = (Inr True, w4) \<and> os_access_w fsys dp w4 = (Inr True, w')"
      by blast
    with ne show ?thesis by simp
  next
    case False
    with assms ne res exi have "confirm_create fsys dp rest w2 = (Returned s, evs, rest', w')"
      by (simp add: path_attempt_def)
    from confirm_create_returned [OF this] obtain answer w3 where
      a: "rest = Inr answer # rest'"
         "lower (strip answer) = lit ''y'' \<or> lower (strip answer) = lit ''yes''"
         "path_mkdir fsys dp True True w2 = (None, w3)"
         "path_checks fsys dp
            [Prompt (create_prompt dp), Mkdir dp,
             Print (lit ''Created directory: '' @ path_str dp)]
            rest' w3 = (Returned s, evs, rest', w')"
      by blast
    from path_checks_returned [OF a(4)] obtain w4 where
      c: "s = path_str dp" "path_is_dir fsys dp w3 = (Inr True, w4)"
         "os_access_w fsys dp w4 = (Inr True, w')"
      by blast
    from exi False have "path_exists fsys dp w1 = (Inr False, w2)" by simp
    with c res a(1,2,3) have "\<exists>dp w1 w2 w3 w4.
       path_resolve fsys (strip line) w = (Inr dp, w1) \<and> s = path_str dp \<and>
       (path_exists fsys dp w1 = (Inr True, w3) \<and> rest' = rest \<or>
        path_exists fsys dp w1 = (Inr False, w2) \<and>
        (\<exists>answer. rest = Inr answer # rest' \<and>
           (lower (strip answer) = lit ''y'' \<or> lower (strip answer) = lit ''yes'') \<and>
           path_mkdir fsys dp True True w2 = (None, w3))) \<and>
       path_is_dir fsys dp w3 = (Inr True, w4) \<and> os_access_w fsys dp w4 = (Inr True, w')"
      by blast
    with ne show ?thesis by simp
  qed
qed

lemma get_download_path_retry:
  "path_attempt fsys w line rest = (Retry, evs, rest', w') \<Longrightarrow>
     get_download_path fsys w (Inr line # rest) =
       (case get_download_path fsys w' rest' of
          (r, evs', x) \<Rightarrow> (r, Prompt path_prompt # evs @ evs', x))"
  by (simp split: prod.splits)

lemma get_download_path_leaves:
  "path_attempt fsys w line rest = (r, evs, rest', w') \<Longrightarrow> r \<noteq> Retry \<Longrightarrow>
     get_download_path fsys w (Inr line # rest) = (r, Prompt path_prompt # evs, rest', w')"
  by (cases r) simp_all

lemma path_attempt_consumes:
  "path_attempt fsys w line rest = (r, evs, rest', w') \<Longrightarrow>
     length rest' \<le> length rest \<and> (rest' = rest \<or> (\<exists>a. rest = a # rest'))"
  by (auto simp: path_attempt_def confirm_create_def path_checks_def Let_def
      split: if_splits list.splits sum.splits prod.splits option.splits)

lemma get_download_path_never_retry: "fst (get_download_path fsys w ins) \<noteq> Retry"
proof (induction "length ins" arbitrary: w ins rule: less_induct)
  case less
  show ?case
  proof (cases ins)
    case Nil
    then show ?thesis by simp
  next
    case (Cons a rest)
    show ?thesis
    proof (cases a)
      case (Inl e)
      with Cons show ?thesis by simp
    next
      case (Inr line)
      obtain r evs rest' w' where pa: "path_attempt fsys w line rest = (r, evs, rest', w')"
        by (cases "path_attempt fsys w line rest") auto
      show ?thesis
      proof (cases "r = Retry")
        case True
        from path_attempt_consumes [OF pa] Cons have "length rest' < length ins" by simp
        then have "fst (get_download_path fsys w' rest') \<noteq> Retry" by (rule less)
        moreover from pa True have "path_attempt fsys w line rest = (Retry, evs, rest', w')"
          by simp
        note get_download_path_retry [OF this]
        ultimately show ?thesis using Cons Inr by (simp split: prod.splits)
      next
        case False
        with get_download_path_leaves [OF pa] Cons Inr show ?thesis by simp
      qed
    qed
  qed
qed

lemma get_download_path_returned:
  "get_download_path fsys w ins = (Returned s, evs, rest', w') \<Longrightarrow>
     \<exists>pre line rest0 w0 evs0. ins = pre @ Inr line # rest0 \<and>
        path_attempt fsys w0 line rest0 = (Returned s, evs0, rest', w')"
proof (induction "length ins" arbitrary: w ins evs rule: less_induct)
  case less
  show ?case
  proof (cases ins)
    case Nil
    with less.prems show ?thesis by simp
  next
    case (Cons a rest)
    show ?thesis
    proof (cases a)
      case (Inl e)
      with Cons less.prems show ?thesis by simp
    next
      case (Inr line)
      obtain r evs1 rest1 w1 where pa: "path_attempt fsys w line rest = (r, evs1, rest1, w1)"
        by (cases "path_attempt fsys w line rest") auto
      show ?thesis
      proof (cases "r = Retry")
        case True
        with pa have "path_attempt fsys w line rest = (Retry, evs1, rest1, w1)" by simp
        from get_download_path_retry [OF this] less.prems Cons Inr obtain evs2 where
          g: "get_download_path fsys w1 rest1 = (Returned s, evs2, rest', w')"
          by (auto split: prod.splits)
        from path_attempt_consumes [OF pa] Cons have
          short: "length rest1 < length ins" and
          sub: "rest1 = rest \<or> (\<exists>b. rest = b # rest1)" by simp_all
        from less.hyps [OF short g] obtain pre l rest0 w0 evs0 where
          f: "rest1 = pre @ Inr l # rest0"
             "path_attempt fsys w0 l rest0 = (Returned s, evs0, rest', w')"
          by blast
        from sub Cons f(1) have
          "ins = (a # pre) @ Inr l # rest0 \<or> (\<exists>b. ins = (a # b # pre) @ Inr l # rest0)"
          by auto
        with f(2) show ?thesis by blast
      next
        case False
        from get_download_path_leaves [OF pa False] less.prems Cons Inr
        have "path_attempt fsys w line rest = (Returned s, evs1, rest', w')"
          using pa by simp
        with Cons Inr have "ins = [] @ Inr line # rest \<and>
            path_attempt fsys w line rest = (Returned s, evs1, rest', w')" by simp
        then show ?thesis by blast
      qed
    qed
  qed
qed

lemma get_download_path_prompts:
  "\<exists>evs. fst (snd (get_download_path fsys w ins)) = Prompt path_prompt # evs"
proof (cases ins)
  case Nil
  then show ?thesis by simp
next
  case (Cons a rest)
  then show ?thesis
    by (cases a) (auto split: prod.splits attempt.splits)
qed

lemma get_download_path_blank_lines:
  "get_download_path fsys w (replicate n (Inr []) @ ins) =
     (case get_download_path fsys w ins of
        (r, evs, x) \<Rightarrow>
          (r, concat (replicate n [Prompt path_prompt, Print empty_path_msg]) @ evs, x))"
proof (induction n)
  case 0
  then show ?case by (simp split: prod.splits)
next
  case (Suc n)
  have "path_attempt fsys w [] (replicate n (Inr []) @ ins) =
          (Retry, [Print empty_path_msg], replicate n (Inr []) @ ins, w)"
    by (rule path_attempt_empty) (simp add: strip_def)
  from get_download_path_retry [OF this] Suc show ?case
    by (simp split: prod.splits)
qed

lemma path_str_absolute: "starts_with (lit ''/'') (path_str p)"
  by (cases p) (simp_all add: path_str_def starts_with_def)


text \<open>
  C5, as the code has it. One pass of the loop, case by case. An empty stripped line:
  \<open>Please enter a valid path.\<close> and a new pass. A path that exists: when it is not a
  directory, or not writable, the message that says so and a new pass; when it is
  both, the pass returns the text of the resolved path. A path that does not exist:
  the question whether to create it; after any answer but \<open>y\<close> or \<open>yes\<close> a new pass with
  no further message; after a creation that raised an exception deriving from
  \<open>Exception\<close>, the line \<open>Error creating directory:\<close> with its text and a new pass;
  after a creation that returned, the two checks as for a path that exists. An
  exception raised by \<open>resolve()\<close>, \<open>exists()\<close>, \<open>is_dir()\<close>, \<open>os.access\<close> or \<open>input()\<close>
  is not caught: it leaves the function with no message and no new pass. A new pass
  starts with the prompt, and there is no limit: any number of empty lines gives that
  many prompts and messages before the rest is looked at. When the function returns,
  what it returns is the text of the path that \<open>resolve()\<close> gave for a line that was
  read and is not empty once stripped; that path existed or was created after the
  answer \<open>y\<close> or \<open>yes\<close>, and then was found to be a directory and writable; the text
  starts with a slash, and the path is normalized when \<open>resolve()\<close> keeps its promise.
\<close>

theorem path_acquisition:
  "(strip line = [] \<longrightarrow>
      path_attempt fsys w line rest = (Retry, [Print empty_path_msg], rest, w)) \<and>
   (strip line \<noteq> [] \<and> path_resolve fsys (strip line) w = (Inl e, w1) \<longrightarrow>
      path_attempt fsys w line rest = (Raised e, [], rest, w1)) \<and>
   (strip line \<noteq> [] \<and> path_resolve fsys (strip line) w = (Inr dp, w1) \<and>
    path_exists fsys dp w1 = (Inl e, w2) \<longrightarrow>
      path_attempt fsys w line rest = (Raised e, [], rest, w2)) \<and>
   (strip line \<noteq> [] \<and> path_resolve fsys (strip line) w = (Inr dp, w1) \<and>
    path_exists fsys dp w1 = (Inr True, w2) \<longrightarrow>
      (path_is_dir fsys dp w2 = (Inl e, w3) \<longrightarrow>
         path_attempt fsys w line rest = (Raised e, [], rest, w3)) \<and>
      (path_is_dir fsys dp w2 = (Inr False, w3) \<longrightarrow>
         path_attempt fsys w line rest = (Retry, [Print not_dir_msg], rest, w3)) \<and>
      (path_is_dir fsys dp w2 = (Inr True, w3) \<and> os_access_w fsys dp w3 = (Inl e, w4) \<longrightarrow>
         path_attempt fsys w line rest = (Raised e, [], rest, w4)) \<and>
      (path_is_dir fsys dp w2 = (Inr True, w3) \<and> os_access_w fsys dp w3 = (Inr False, w4) \<longrightarrow>
         path_attempt fsys w line rest = (Retry, [Print not_writable_msg], rest, w4)) \<and>
      (path_is_dir fsys dp w2 = (Inr True, w3) \<and> os_access_w fsys dp w3 = (Inr True, w4) \<longrightarrow>
         path_attempt fsys w line rest = (Returned (path_str dp), [], rest, w4))) \<and>
   (strip line \<noteq> [] \<and> path_resolve fsys (strip line) w = (Inr dp, w1) \<and>
    path_exists fsys dp w1 = (Inr False, w2) \<longrightarrow>
      path_attempt fsys w line [] = (Raised eof_error, [Prompt (create_prompt dp)], [], w2) \<and>
      path_attempt fsys w line (Inl e # rest) =
        (Raised e, [Prompt (create_prompt dp)], rest, w2) \<and>
      (\<not> (lower (strip answer) = lit ''y'' \<or> lower (strip answer) = lit ''yes'') \<longrightarrow>
         path_attempt fsys w line (Inr answer # rest) =
           (Retry, [Prompt (create_prompt dp)], rest, w2)) \<and>
      ((lower (strip answer) = lit ''y'' \<or> lower (strip answer) = lit ''yes'') \<and>
       path_mkdir fsys dp True True w2 = (Some e, w3) \<and> is_Exception (exn_class e) \<longrightarrow>
         path_attempt fsys w line (Inr answer # rest) =
           (Retry,
            [Prompt (create_prompt dp), Mkdir dp,
             Print (lit ''Error creating directory: '' @ exn_str e)],
            rest, w3)) \<and>
      ((lower (strip answer) = lit ''y'' \<or> lower (strip answer) = lit ''yes'') \<and>
       path_mkdir fsys dp True True w2 = (None, w3) \<longrightarrow>
         path_attempt fsys w line (Inr answer # rest) =
           path_checks fsys dp
             [Prompt (create_prompt dp), Mkdir dp,
              Print (lit ''Created directory: '' @ path_str dp)]
             rest w3)) \<and>
   get_download_path fsys w [] = (Raised eof_error, [Prompt path_prompt], [], w) \<and>
   get_download_path fsys w (Inl e # rest) = (Raised e, [Prompt path_prompt], rest, w) \<and>
   (path_attempt fsys w line rest = (Retry, evs, rest', w') \<longrightarrow>
      get_download_path fsys w (Inr line # rest) =
        (case get_download_path fsys w' rest' of
           (r, evs', x) \<Rightarrow> (r, Prompt path_prompt # evs @ evs', x))) \<and>
   (path_attempt fsys w line rest = (r, evs, rest', w') \<and> r \<noteq> Retry \<longrightarrow>
      get_download_path fsys w (Inr line # rest) = (r, Prompt path_prompt # evs, rest', w')) \<and>
   get_download_path fsys w (replicate n (Inr []) @ ins) =
     (case get_download_path fsys w ins of
        (r, evs, x) \<Rightarrow>
          (r, concat (replicate n [Prompt path_prompt, Print empty_path_msg]) @ evs, x)) \<and>
   fst (get_download_path fsys w ins) \<noteq> Retry \<and>
   (get_download_path fsys w ins = (Returned s, evs, rest', w') \<longrightarrow>
      starts_with (lit ''/'') s \<and>
      (\<exists>pre line0 rest0 w0 p v1 v2 v3 v4.
         ins = pre @ Inr line0 # rest0 \<and> strip line0 \<noteq> [] \<and>
         path_resolve fsys (strip line0) w0 = (Inr p, v1) \<and> s = path_str p \<and>
         (resolve_normalizes fsys \<longrightarrow> normalized p) \<and>
         (path_exists fsys p v1 = (Inr True, v3) \<and> rest' = rest0 \<or>
          path_exists fsys p v1 = (Inr False, v2) \<and>
          (\<exists>answer. rest0 = Inr answer # rest' \<and>
             (lower (strip answer) = lit ''y'' \<or> lower (strip answer) = lit ''yes'') \<and>
             path_mkdir fsys p True True v2 = (None, v3))) \<and>
         path_is_dir fsys p v3 = (Inr True, v4) \<and> os_access_w fsys p v4 = (Inr True, w')))"
proof (intro conjI impI)
  show "get_download_path fsys w [] = (Raised eof_error, [Prompt path_prompt], [], w)"
    by simp
  show "get_download_path fsys w (Inl e # rest) = (Raised e, [Prompt path_prompt], rest, w)"
    by simp
  show "get_download_path fsys w (replicate n (Inr []) @ ins) =
     (case get_download_path fsys w ins of
        (r, evs, x) \<Rightarrow>
          (r, concat (replicate n [Prompt path_prompt, Print empty_path_msg]) @ evs, x))"
    by (rule get_download_path_blank_lines)
  show "fst (get_download_path fsys w ins) \<noteq> Retry"
    by (rule get_download_path_never_retry)
next
  assume "strip line = []"
  then show "path_attempt fsys w line rest = (Retry, [Print empty_path_msg], rest, w)"
    by (rule path_attempt_empty)
next
  assume "strip line \<noteq> [] \<and> path_resolve fsys (strip line) w = (Inl e, w1)"
  then show "path_attempt fsys w line rest = (Raised e, [], rest, w1)"
    by (simp add: path_attempt_resolve_raises)
next
  assume "strip line \<noteq> [] \<and> path_resolve fsys (strip line) w = (Inr dp, w1) \<and>
    path_exists fsys dp w1 = (Inl e, w2)"
  then show "path_attempt fsys w line rest = (Raised e, [], rest, w2)"
    by (simp add: path_attempt_exists_raises)
next
  assume a: "strip line \<noteq> [] \<and> path_resolve fsys (strip line) w = (Inr dp, w1) \<and>
    path_exists fsys dp w1 = (Inr True, w2)"
  then have pa: "path_attempt fsys w line rest = path_checks fsys dp [] rest w2"
    by (simp add: path_attempt_existing)
  {
    assume "path_is_dir fsys dp w2 = (Inl e, w3)"
    with pa show "path_attempt fsys w line rest = (Raised e, [], rest, w3)"
      by (simp add: path_checks_is_dir_raises)
  next
    assume "path_is_dir fsys dp w2 = (Inr False, w3)"
    with pa show "path_attempt fsys w line rest = (Retry, [Print not_dir_msg], rest, w3)"
      by (simp add: path_checks_not_dir)
  next
    assume "path_is_dir fsys dp w2 = (Inr True, w3) \<and> os_access_w fsys dp w3 = (Inl e, w4)"
    with pa show "path_attempt fsys w line rest = (Raised e, [], rest, w4)"
      by (simp add: path_checks_access_raises)
  next
    assume "path_is_dir fsys dp w2 = (Inr True, w3) \<and> os_access_w fsys dp w3 = (Inr False, w4)"
    with pa show "path_attempt fsys w line rest = (Retry, [Print not_writable_msg], rest, w4)"
      by (simp add: path_checks_not_writable)
  next
    assume "path_is_dir fsys dp w2 = (Inr True, w3) \<and> os_access_w fsys dp w3 = (Inr True, w4)"
    with pa show "path_attempt fsys w line rest = (Returned (path_str dp), [], rest, w4)"
      by (simp add: path_checks_returns)
  }
next
  assume a: "strip line \<noteq> [] \<and> path_resolve fsys (strip line) w = (Inr dp, w1) \<and>
    path_exists fsys dp w1 = (Inr False, w2)"
  then have pa: "path_attempt fsys w line tail = confirm_create fsys dp tail w2" for tail
    by (simp add: path_attempt_missing)
  show "path_attempt fsys w line [] = (Raised eof_error, [Prompt (create_prompt dp)], [], w2)"
    by (simp add: pa confirm_create_def)
  show "path_attempt fsys w line (Inl e # rest) =
        (Raised e, [Prompt (create_prompt dp)], rest, w2)"
    by (simp add: pa confirm_create_def)
  {
    assume "\<not> (lower (strip answer) = lit ''y'' \<or> lower (strip answer) = lit ''yes'')"
    then show "path_attempt fsys w line (Inr answer # rest) =
           (Retry, [Prompt (create_prompt dp)], rest, w2)"
      by (simp add: pa confirm_create_declined)
  next
    assume "(lower (strip answer) = lit ''y'' \<or> lower (strip answer) = lit ''yes'') \<and>
       path_mkdir fsys dp True True w2 = (Some e, w3) \<and> is_Exception (exn_class e)"
    then show "path_attempt fsys w line (Inr answer # rest) =
           (Retry,
            [Prompt (create_prompt dp), Mkdir dp,
             Print (lit ''Error creating directory: '' @ exn_str e)],
            rest, w3)"
      by (simp add: pa confirm_create_failed)
  next
    assume "(lower (strip answer) = lit ''y'' \<or> lower (strip answer) = lit ''yes'') \<and>
       path_mkdir fsys dp True True w2 = (None, w3)"
    then show "path_attempt fsys w line (Inr answer # rest) =
           path_checks fsys dp
             [Prompt (create_prompt dp), Mkdir dp,
              Print (lit ''Created directory: '' @ path_str dp)]
             rest w3"
      by (simp add: pa confirm_create_made)
  }
next
  assume "path_attempt fsys w line rest = (Retry, evs, rest', w')"
  then show "get_download_path fsys w (Inr line # rest) =
        (case get_download_path fsys w' rest' of
           (r, evs', x) \<Rightarrow> (r, Prompt path_prompt # evs @ evs', x))"
    by (rule get_download_path_retry)
next
  assume "path_attempt fsys w line rest = (r, evs, rest', w') \<and> r \<noteq> Retry"
  then have "path_attempt fsys w line rest = (r, evs, rest', w')" and "r \<noteq> Retry"
    by simp_all
  then show "get_download_path fsys w (Inr line # rest) =
      (r, Prompt path_prompt # evs, rest', w')"
    by (rule get_download_path_leaves)
next
  assume g: "get_download_path fsys w ins = (Returned s, evs, rest', w')"
  from get_download_path_returned [OF g] obtain pre line0 rest0 w0 evs0 where
    i: "ins = pre @ Inr line0 # rest0" and
    pa: "path_attempt fsys w0 line0 rest0 = (Returned s, evs0, rest', w')"
    by blast
  from path_attempt_returned [OF pa] obtain p v1 v2 v3 v4 where
    ne: "strip line0 \<noteq> []" and
    r: "path_resolve fsys (strip line0) w0 = (Inr p, v1)" and
    s: "s = path_str p" and
    c: "path_exists fsys p v1 = (Inr True, v3) \<and> rest' = rest0 \<or>
        path_exists fsys p v1 = (Inr False, v2) \<and>
        (\<exists>answer. rest0 = Inr answer # rest' \<and>
           (lower (strip answer) = lit ''y'' \<or> lower (strip answer) = lit ''yes'') \<and>
           path_mkdir fsys p True True v2 = (None, v3))" and
    d: "path_is_dir fsys p v3 = (Inr True, v4)" "os_access_w fsys p v4 = (Inr True, w')"
    by blast
  from s show "starts_with (lit ''/'') s" by (simp only: path_str_absolute)
  from r have n: "resolve_normalizes fsys \<longrightarrow> normalized p"
    unfolding resolve_normalizes_def by blast
  from i ne r s n c d
  show "\<exists>pre line0 rest0 w0 p v1 v2 v3 v4.
         ins = pre @ Inr line0 # rest0 \<and> strip line0 \<noteq> [] \<and>
         path_resolve fsys (strip line0) w0 = (Inr p, v1) \<and> s = path_str p \<and>
         (resolve_normalizes fsys \<longrightarrow> normalized p) \<and>
         (path_exists fsys p v1 = (Inr True, v3) \<and> rest' = rest0 \<or>
          path_exists fsys p v1 = (Inr False, v2) \<and>
          (\<exists>answer. rest0 = Inr answer # rest' \<and>
             (lower (strip answer) = lit ''y'' \<or> lower (strip answer) = lit ''yes'') \<and>
             path_mkdir fsys p True True v2 = (None, v3))) \<and>
         path_is_dir fsys p v3 = (Inr True, v4) \<and> os_access_w fsys p v4 = (Inr True, w')"
    by blast
qed

theorem path_acquisition_witness:
  "get_download_path (ref_fs [] True) example_fs
     [Inr [0x20, 0xA0], Inr (lit ''/tmp/notes''), Inr (lit ''/etc''),
      Inr (lit '' tmp/../tmp/./ ''), Inr (lit ''unread'')] =
   (Returned (lit ''/tmp''),
    [Prompt path_prompt, Print (lit ''Please enter a valid path.''),
     Prompt path_prompt, Print (lit ''The path must be a directory, not a file.''),
     Prompt path_prompt, Print (lit ''You don't have write permission to this directory.''),
     Prompt path_prompt],
    [Inr (lit ''unread'')], example_fs) \<and>
   normalized [lit ''tmp'']"
  using path_acquisition
    [where fsys = "ref_fs [] True" and w = example_fs and line = "[0x20, 0xA0]"
       and rest = "[Inr (lit ''/tmp/notes''), Inr (lit ''/etc''),
          Inr (lit '' tmp/../tmp/./ ''), Inr (lit ''unread'')]"
       and ins = "[Inr [0x20, 0xA0], Inr (lit ''/tmp/notes''), Inr (lit ''/etc''),
          Inr (lit '' tmp/../tmp/./ ''), Inr (lit ''unread'')]"
       and s = "lit ''/tmp''" and rest' = "[Inr (lit ''unread'')]" and w' = example_fs
       and evs = "[Prompt path_prompt, Print (lit ''Please enter a valid path.''),
     Prompt path_prompt, Print (lit ''The path must be a directory, not a file.''),
     Prompt path_prompt, Print (lit ''You don't have write permission to this directory.''),
     Prompt path_prompt]"]
    path_acquisition
    [where fsys = "ref_fs [] True" and w = example_fs and line = "lit ''/tmp/notes''"
       and dp = "[lit ''tmp'', lit ''notes'']" and ?w1.0 = example_fs and ?w2.0 = example_fs
       and ?w3.0 = example_fs and rest = "[]"]
    path_acquisition
    [where fsys = "ref_fs [] True" and w = example_fs and line = "lit ''/etc''"
       and dp = "[lit ''etc'']" and ?w1.0 = example_fs and ?w2.0 = example_fs
       and ?w3.0 = example_fs and ?w4.0 = example_fs and rest = "[]"]
    path_acquisition
    [where fsys = "ref_fs [] True" and w = example_fs and line = "lit '' tmp/../tmp/./ ''"
       and dp = "[lit ''tmp'']" and ?w1.0 = example_fs and ?w2.0 = example_fs
       and ?w3.0 = example_fs and ?w4.0 = example_fs and rest = "[]"]
    ref_fs_resolve_normalizes [OF normalized_root, of True]
  by (simp add: path_defs ref_defs string_defs prompt_defs Let_def normalized_def
      normal_segment_def)

text \<open>
  C5 as stated fails: a path with a NUL character in it fails validation with no
  diagnostic and no new prompt. \<open>resolve()\<close> raises \<open>ValueError\<close>, nothing catches it, and
  it leaves \<open>get_download_path\<close> and the program; the next line is never read.
\<close>

theorem resolve_error_leaves_acquisition:
  "get_download_path (ref_fs [] True) example_fs
     [Inr (lit ''/tmp/a'' @ [0]), Inr (lit ''/tmp'')] =
   (Raised (PyExn ValueError (lit ''embedded null byte'')), [Prompt path_prompt],
    [Inr (lit ''/tmp'')], example_fs) \<and>
   program None example_service (ref_fs [] True) None example_fs
     [Inr (lit ''/tmp/a'' @ [0]), Inr (lit ''/tmp'')] =
   (Uncaught (PyExn ValueError (lit ''embedded null byte'')), banner @ [Prompt path_prompt])"
  by (simp add: path_defs ref_defs string_defs program_def main_def Let_def)

text \<open>
  C6. At a line that is not empty once stripped, whose path \<open>resolve()\<close> gave and
  \<open>exists()\<close> denied, the question whether to create the path is asked. After the
  answer \<open>y\<close> or \<open>yes\<close> (in any case, with whitespace around it),
  \<open>mkdir(parents=True, exist_ok=True)\<close> is called on the path. When it returns, the
  line \<open>Created directory:\<close> is printed and the two checks follow; as \<open>mkdir\<close> with
  \<open>parents=True\<close> promises, the path and every prefix of it below the root are
  directories then, and when the path is found a directory and writable the function
  returns its text. When \<open>mkdir\<close> raises an error (an \<open>OSError\<close>, which derives from
  \<open>Exception\<close>), the line \<open>Error creating directory:\<close> with the text of the error is
  printed and the next thing that happens is the path prompt. After any other answer
  \<open>mkdir\<close> is not called, the outside world stays as \<open>exists()\<close> left it, and the next
  thing that happens is the path prompt.
\<close>

theorem directory_creation:
  assumes "strip line \<noteq> []"
    and "path_resolve fsys (strip line) w = (Inr dp, w1)"
    and "path_exists fsys dp w1 = (Inr False, w2)"
  shows
   "((lower (strip answer) = lit ''y'' \<or> lower (strip answer) = lit ''yes'') \<and>
     path_mkdir fsys dp True True w2 = (None, w3) \<longrightarrow>
       path_attempt fsys w line (Inr answer # rest) =
         path_checks fsys dp
           [Prompt (create_prompt dp), Mkdir dp,
            Print (lit ''Created directory: '' @ path_str dp)]
           rest w3 \<and>
       (mkdir_makes_parents fsys \<longrightarrow>
          (\<forall>n. 0 < n \<and> n \<le> length dp \<longrightarrow>
             fst (path_is_dir fsys (take n dp) w3) = Inr True)) \<and>
       (path_is_dir fsys dp w3 = (Inr True, w4) \<and> os_access_w fsys dp w4 = (Inr True, w5) \<longrightarrow>
          get_download_path fsys w (Inr line # Inr answer # rest) =
            (Returned (path_str dp),
             [Prompt path_prompt, Prompt (create_prompt dp), Mkdir dp,
              Print (lit ''Created directory: '' @ path_str dp)],
             rest, w5))) \<and>
    ((lower (strip answer) = lit ''y'' \<or> lower (strip answer) = lit ''yes'') \<and>
     path_mkdir fsys dp True True w2 = (Some e, w3) \<and> is_Exception (exn_class e) \<longrightarrow>
       path_attempt fsys w line (Inr answer # rest) =
         (Retry,
          [Prompt (create_prompt dp), Mkdir dp,
           Print (lit ''Error creating directory: '' @ exn_str e)],
          rest, w3) \<and>
       get_download_path fsys w (Inr line # Inr answer # rest) =
         (case get_download_path fsys w3 rest of
            (r, evs, x) \<Rightarrow>
              (r,
               [Prompt path_prompt, Prompt (create_prompt dp), Mkdir dp,
                Print (lit ''Error creating directory: '' @ exn_str e)] @ evs,
               x)) \<and>
       (\<exists>r evs x. get_download_path fsys w (Inr line # Inr answer # rest) =
          (r,
           [Prompt path_prompt, Prompt (create_prompt dp), Mkdir dp,
            Print (lit ''Error creating directory: '' @ exn_str e), Prompt path_prompt] @ evs,
           x))) \<and>
    (\<not> (lower (strip answer) = lit ''y'' \<or> lower (strip answer) = lit ''yes'') \<longrightarrow>
       path_attempt fsys w line (Inr answer # rest) =
         (Retry, [Prompt (create_prompt dp)], rest, w2) \<and>
       get_download_path fsys w (Inr line # Inr answer # rest) =
         (case get_download_path fsys w2 rest of
            (r, evs, x) \<Rightarrow> (r, [Prompt path_prompt, Prompt (create_prompt dp)] @ evs, x)) \<and>
       (\<exists>r evs x. get_download_path fsys w (Inr line # Inr answer # rest) =
          (r, [Prompt path_prompt, Prompt (create_prompt dp), Prompt path_prompt] @ evs, x)))"
proof -
  from assms have pa: "path_attempt fsys w line tail = confirm_create fsys dp tail w2" for tail
    by (simp add: path_attempt_missing)
  have again: "\<exists>r evs x. (case get_download_path fsys v rest of
            (r, evs, x) \<Rightarrow> (r, pre @ evs, x)) = (r, (pre @ [Prompt path_prompt]) @ evs, x)"
    for v pre
  proof -
    obtain r evs x where g: "get_download_path fsys v rest = (r, evs, x)"
      by (cases "get_download_path fsys v rest") auto
    from get_download_path_prompts [of fsys v rest] g obtain evs' where
      "evs = Prompt path_prompt # evs'" by auto
    with g show ?thesis by simp
  qed
  show ?thesis
  proof (intro conjI impI)
    assume a: "(lower (strip answer) = lit ''y'' \<or> lower (strip answer) = lit ''yes'') \<and>
       path_mkdir fsys dp True True w2 = (None, w3)"
    then show made: "path_attempt fsys w line (Inr answer # rest) =
         path_checks fsys dp
           [Prompt (create_prompt dp), Mkdir dp,
            Print (lit ''Created directory: '' @ path_str dp)]
           rest w3"
      by (simp add: pa confirm_create_made)
    {
      assume "mkdir_makes_parents fsys"
      with a show "\<forall>n. 0 < n \<and> n \<le> length dp \<longrightarrow>
             fst (path_is_dir fsys (take n dp) w3) = Inr True"
        unfolding mkdir_makes_parents_def by blast
    next
      assume "path_is_dir fsys dp w3 = (Inr True, w4) \<and> os_access_w fsys dp w4 = (Inr True, w5)"
      with made have "path_attempt fsys w line (Inr answer # rest) =
          (Returned (path_str dp),
           [Prompt (create_prompt dp), Mkdir dp,
            Print (lit ''Created directory: '' @ path_str dp)],
           rest, w5)"
        by (simp add: path_checks_returns)
      then show "get_download_path fsys w (Inr line # Inr answer # rest) =
            (Returned (path_str dp),
             [Prompt path_prompt, Prompt (create_prompt dp), Mkdir dp,
              Print (lit ''Created directory: '' @ path_str dp)],
             rest, w5)"
        by simp
    }
  next
    assume a: "(lower (strip answer) = lit ''y'' \<or> lower (strip answer) = lit ''yes'') \<and>
       path_mkdir fsys dp True True w2 = (Some e, w3) \<and> is_Exception (exn_class e)"
    then show failed: "path_attempt fsys w line (Inr answer # rest) =
         (Retry,
          [Prompt (create_prompt dp), Mkdir dp,
           Print (lit ''Error creating directory: '' @ exn_str e)],
          rest, w3)"
      by (simp add: pa confirm_create_failed)
    from get_download_path_retry [OF failed]
    show eq: "get_download_path fsys w (Inr line # Inr answer # rest) =
         (case get_download_path fsys w3 rest of
            (r, evs, x) \<Rightarrow>
              (r,
               [Prompt path_prompt, Prompt (create_prompt dp), Mkdir dp,
                Print (lit ''Error creating directory: '' @ exn_str e)] @ evs,
               x))"
      by simp
    from again [where v = w3 and pre = "[Prompt path_prompt, Prompt (create_prompt dp), Mkdir dp,
                Print (lit ''Error creating directory: '' @ exn_str e)]"]
    show "\<exists>r evs x. get_download_path fsys w (Inr line # Inr answer # rest) =
          (r,
           [Prompt path_prompt, Prompt (create_prompt dp), Mkdir dp,
            Print (lit ''Error creating directory: '' @ exn_str e), Prompt path_prompt] @ evs,
           x)"
      unfolding eq by simp
  next
    assume a: "\<not> (lower (strip answer) = lit ''y'' \<or> lower (strip answer) = lit ''yes'')"
    then show declined: "path_attempt fsys w line (Inr answer # rest) =
         (Retry, [Prompt (create_prompt dp)], rest, w2)"
      by (simp add: pa confirm_create_declined)
    from get_download_path_retry [OF declined]
    show eq: "get_download_path fsys w (Inr line # Inr answer # rest) =
         (case get_download_path fsys w2 rest of
            (r, evs, x) \<Rightarrow> (r, [Prompt path_prompt, Prompt (create_prompt dp)] @ evs, x))"
      by simp
    from again [where v = w2 and pre = "[Prompt path_prompt, Prompt (create_prompt dp)]"]
    show "\<exists>r evs x. get_download_path fsys w (Inr line # Inr answer # rest) =
          (r, [Prompt path_prompt, Prompt (create_prompt dp), Prompt path_prompt] @ evs, x)"
      unfolding eq by simp
  qed
qed

theorem directory_creation_witness:
  "get_download_path (ref_fs [] True) example_fs
     [Inr (lit '' /tmp/a/b ''), Inr (lit ''Y'' @ [0xA0]), Inr (lit ''unread'')] =
   (Returned (lit ''/tmp/a/b''),
    [Prompt path_prompt,
     Prompt (lit ''Path '/tmp/a/b' doesn't exist. Create it? (y/n): ''),
     Mkdir [lit ''tmp'', lit ''a'', lit ''b''],
     Print (lit ''Created directory: /tmp/a/b'')],
    [Inr (lit ''unread'')],
    example_fs([lit ''tmp'', lit ''a''] \<mapsto> Dir True,
               [lit ''tmp'', lit ''a'', lit ''b''] \<mapsto> Dir True)) \<and>
   get_download_path (ref_fs [] True) example_fs
     [Inr (lit ''/etc/a/b''), Inr (lit ''yes''), Inr (lit ''/tmp'')] =
   (Returned (lit ''/tmp''),
    [Prompt path_prompt,
     Prompt (lit ''Path '/etc/a/b' doesn't exist. Create it? (y/n): ''),
     Mkdir [lit ''etc'', lit ''a'', lit ''b''],
     Print (lit ''Error creating directory: [Errno 13] Permission denied: '' @
            quoted (lit ''/etc/a'')),
     Prompt path_prompt],
    [], example_fs) \<and>
   get_download_path (ref_fs [] True) example_fs
     [Inr (lit ''/tmp/new''), Inr (lit ''n''), Inr (lit ''/tmp'')] =
   (Returned (lit ''/tmp''),
    [Prompt path_prompt,
     Prompt (lit ''Path '/tmp/new' doesn't exist. Create it? (y/n): ''),
     Prompt path_prompt],
    [], example_fs)"
  using directory_creation
    [where fsys = "ref_fs [] True" and w = example_fs and line = "lit '' /tmp/a/b ''"
       and dp = "[lit ''tmp'', lit ''a'', lit ''b'']" and ?w1.0 = example_fs
       and ?w2.0 = example_fs and answer = "lit ''Y'' @ [0xA0]"
       and rest = "[Inr (lit ''unread'')]"
       and ?w3.0 = "example_fs([lit ''tmp'', lit ''a''] \<mapsto> Dir True,
               [lit ''tmp'', lit ''a'', lit ''b''] \<mapsto> Dir True)"
       and ?w4.0 = "example_fs([lit ''tmp'', lit ''a''] \<mapsto> Dir True,
               [lit ''tmp'', lit ''a'', lit ''b''] \<mapsto> Dir True)"
       and ?w5.0 = "example_fs([lit ''tmp'', lit ''a''] \<mapsto> Dir True,
               [lit ''tmp'', lit ''a'', lit ''b''] \<mapsto> Dir True)"]
    directory_creation
    [where fsys = "ref_fs [] True" and w = example_fs and line = "lit ''/etc/a/b''"
       and dp = "[lit ''etc'', lit ''a'', lit ''b'']" and ?w1.0 = example_fs
       and ?w2.0 = example_fs and answer = "lit ''yes''"
       and rest = "[Inr (lit ''/tmp'')]" and ?w3.0 = example_fs
       and e = "PyExn PermissionError (lit ''[Errno 13] Permission denied: '' @ quoted (lit ''/etc/a''))"]
    directory_creation
    [where fsys = "ref_fs [] True" and w = example_fs and line = "lit ''/tmp/new''"
       and dp = "[lit ''tmp'', lit ''new'']" and ?w1.0 = example_fs
       and ?w2.0 = example_fs and answer = "lit ''n''"
       and rest = "[Inr (lit ''/tmp'')]"]
    ref_fs_mkdir_makes_parents [of "[]" True]
  by (simp add: path_defs ref_defs string_defs prompt_defs os_error_def Let_def)

section \<open>The options of every dispatch\<close>

lemma try_body_opts:
  "YoutubeDL x \<in> set (fst (snd (try_body svc opts url w))) \<Longrightarrow> x = opts"
  by (auto simp: try_body_def duration_lines_def Let_def
      split: prod.splits option.splits sum.splits if_splits pyval.splits)

lemma download_audio_opts:
  "YoutubeDL x \<in> set (fst (snd (download_audio svc url dpath w))) \<Longrightarrow> x = make_ydl_opts dpath"
  using try_body_opts [of x svc "make_ydl_opts dpath" url w]
  by (auto simp: download_audio_def Let_def split: prod.splits sum.splits if_splits)

lemma loop_body_opts:
  "YoutubeDL x \<in> set (fst (snd (snd (loop_body svc st w line)))) \<Longrightarrow>
     x = make_ydl_opts (download_path st)"
  using download_audio_opts [of x svc "strip line" "download_path st" w]
  by (auto simp: loop_body_def Let_def split: prod.splits option.splits if_splits)

lemma session_loop_opts:
  "YoutubeDL x \<in> set (fst (snd (snd (session_loop svc st w ins)))) \<Longrightarrow>
     x = make_ydl_opts (download_path st)"
proof (induction ins arbitrary: st w)
  case Nil
  then show ?case by simp
next
  case (Cons a rest)
  show ?case
  proof (cases a)
    case (Inl e)
    with Cons.prems show ?thesis by simp
  next
    case (Inr line)
    obtain r st1 evs1 w1 where lb: "loop_body svc st w line = (r, st1, evs1, w1)"
      by (cases "loop_body svc st w line") auto
    from loop_body_opts [of x svc st w line] lb
    have here: "YoutubeDL x \<in> set evs1 \<Longrightarrow> x = make_ydl_opts (download_path st)" by simp
    show ?thesis
    proof (cases "r = AwaitingURL")
      case True
      with lb have "loop_body svc st w line = (AwaitingURL, st1, evs1, w1)" by simp
      from loop_body_awaiting [OF this] have p: "download_path st1 = download_path st" by simp
      obtain r2 st2 evs2 w2 where sl: "session_loop svc st1 w1 rest = (r2, st2, evs2, w2)"
        by (cases "session_loop svc st1 w1 rest") auto
      from Cons.IH [of st1 w1] sl p
      have there: "YoutubeDL x \<in> set evs2 \<Longrightarrow> x = make_ydl_opts (download_path st)" by simp
      from Cons.prems Inr lb True sl have "YoutubeDL x \<in> set evs1 \<or> YoutubeDL x \<in> set evs2"
        by simp
      with here there show ?thesis by blast
    next
      case False
      with Cons.prems Inr lb have "YoutubeDL x \<in> set evs1"
        by (cases r) simp_all
      with here show ?thesis by blast
    qed
  qed
qed

lemma path_attempt_no_dispatch:
  "path_attempt fsys w line rest = (r, evs, rest', w') \<Longrightarrow> YoutubeDL x \<notin> set evs"
  by (auto simp: path_attempt_def confirm_create_def path_checks_def Let_def
      split: if_splits list.splits sum.splits prod.splits option.splits)

lemma get_download_path_no_dispatch:
  "YoutubeDL x \<notin> set (fst (snd (get_download_path fsys w ins)))"
proof (induction "length ins" arbitrary: w ins rule: less_induct)
  case less
  show ?case
  proof (cases ins)
    case Nil
    then show ?thesis by simp
  next
    case (Cons a rest)
    show ?thesis
    proof (cases a)
      case (Inl e)
      with Cons show ?thesis by simp
    next
      case (Inr line)
      obtain r evs rest' w' where pa: "path_attempt fsys w line rest = (r, evs, rest', w')"
        by (cases "path_attempt fsys w line rest") auto
      from path_attempt_no_dispatch [OF pa] have here: "YoutubeDL x \<notin> set evs" .
      show ?thesis
      proof (cases "r = Retry")
        case True
        from path_attempt_consumes [OF pa] Cons have "length rest' < length ins" by simp
        then have "YoutubeDL x \<notin> set (fst (snd (get_download_path fsys w' rest')))"
          by (rule less)
        moreover from pa True have "path_attempt fsys w line rest = (Retry, evs, rest', w')"
          by simp
        note get_download_path_retry [OF this]
        ultimately show ?thesis using Cons Inr here by (simp split: prod.splits)
      next
        case False
        with get_download_path_leaves [OF pa] Cons Inr here show ?thesis by simp
      qed
    qed
  qed
qed

lemma program_opts:
  assumes "get_download_path fsys w ins = (Returned dpath, pevs, rest, w1)"
    and "YoutubeDL x \<in> set (snd (program None svc fsys ffmpeg w ins))"
  shows "x = make_ydl_opts dpath"
proof -
  from get_download_path_no_dispatch [of x fsys w ins] assms(1)
  have pevs: "YoutubeDL x \<notin> set pevs" by simp
  obtain r st levs w2 where
    sl: "session_loop svc \<lparr>download_path = dpath, downloaded_count = 0\<rparr> w1 rest = (r, st, levs, w2)"
    by (cases "session_loop svc \<lparr>download_path = dpath, downloaded_count = 0\<rparr> w1 rest") auto
  from session_loop_opts [of x svc "\<lparr>download_path = dpath, downloaded_count = 0\<rparr>" w1 rest] sl
  have levs: "YoutubeDL x \<in> set levs \<Longrightarrow> x = make_ydl_opts dpath" by simp
  from assms pevs sl have "YoutubeDL x \<in> set levs"
    by (cases r)
       (auto simp: program_def main_def probe_ffmpeg_def banner_def summary_def
          ffmpeg_warning_def Let_def
        split: option.splits sum.splits if_splits prod.splits)
  with levs show ?thesis by blast
qed

text \<open>
  C9. Every dispatch starts by constructing the fetch service, with these options:
  best audio, the MP3 extraction at quality 192, the sample rate forced to 44100,
  FFmpeg preferred, the downloaded file not kept. The output template is
  \<open>os.path.join\<close> of the download path and \<open>%(title)s.%(ext)s\<close>: the two texts with one
  slash between them, or with none when the path ends in one. For the text of a
  normalized path this is the entry \<open>%(title)s.%(ext)s\<close> directly inside that
  directory. A pass on an accepted line constructs the service with the options made
  from the download path of the session, which no pass changes; and in a whole run
  every construction of the service uses the options made from the path that
  \<open>get_download_path\<close> returned, which is the text of a normalized path when
  \<open>resolve()\<close> keeps its promise.
\<close>

theorem dispatch_configuration:
  "(\<exists>evs. fst (snd (download_audio svc url dpath w)) = YoutubeDL (make_ydl_opts dpath) # evs) \<and>
   make_ydl_opts dpath =
     \<lparr> format = lit ''bestaudio/best'',
       outtmpl = os_path_join dpath (lit ''%(title)s.%(ext)s''),
       postprocessors =
         [\<lparr> pp_key = lit ''FFmpegExtractAudio'', preferredcodec = lit ''mp3'',
            preferredquality = lit ''192'' \<rparr>],
       postprocessor_args = [lit ''-ar'', lit ''44100''],
       prefer_ffmpeg = True,
       keepvideo = False \<rparr> \<and>
   os_path_join dpath (lit ''%(title)s.%(ext)s'') =
     (if dpath = [] \<or> last dpath = 0x2F then dpath @ lit ''%(title)s.%(ext)s''
      else dpath @ lit ''/'' @ lit ''%(title)s.%(ext)s'') \<and>
   (normalized p \<longrightarrow>
      outtmpl (make_ydl_opts (path_str p)) = path_str (p @ [lit ''%(title)s.%(ext)s''])) \<and>
   (strip line \<noteq> [] \<and> valid_url (strip line) \<longrightarrow>
      (\<exists>evs. fst (snd (snd (loop_body svc st w line))) =
         Print (newline # lit ''Processing: '' @ strip line) #
         YoutubeDL (make_ydl_opts (download_path st)) # evs)) \<and>
   download_path (fst (snd (loop_body svc st w line))) = download_path st \<and>
   (get_download_path fsys w ins = (Returned validated, pevs, rest, w1) \<longrightarrow>
      (\<forall>opts. YoutubeDL opts \<in> set (snd (program None svc fsys ffmpeg w ins)) \<longrightarrow>
         opts = make_ydl_opts validated) \<and>
      (resolve_normalizes fsys \<longrightarrow>
         (\<exists>q. normalized q \<and> validated = path_str q \<and>
            outtmpl (make_ydl_opts validated) = path_str (q @ [lit ''%(title)s.%(ext)s'']))))"
proof -
  have last: "get_download_path fsys w ins = (Returned validated, pevs, rest, w1) \<longrightarrow>
      (\<forall>opts. YoutubeDL opts \<in> set (snd (program None svc fsys ffmpeg w ins)) \<longrightarrow>
         opts = make_ydl_opts validated) \<and>
      (resolve_normalizes fsys \<longrightarrow>
         (\<exists>q. normalized q \<and> validated = path_str q \<and>
            outtmpl (make_ydl_opts validated) = path_str (q @ [lit ''%(title)s.%(ext)s''])))"
  proof (intro impI conjI allI)
    fix opts
    assume "get_download_path fsys w ins = (Returned validated, pevs, rest, w1)"
      and "YoutubeDL opts \<in> set (snd (program None svc fsys ffmpeg w ins))"
    then show "opts = make_ydl_opts validated" by (rule program_opts)
  next
    assume g: "get_download_path fsys w ins = (Returned validated, pevs, rest, w1)"
      and n: "resolve_normalizes fsys"
    from get_download_path_returned [OF g] obtain line0 rest0 w0 evs0 where
      "path_attempt fsys w0 line0 rest0 = (Returned validated, evs0, rest, w1)" by blast
    from path_attempt_returned [OF this] obtain q v where
      "path_resolve fsys (strip line0) w0 = (Inr q, v)" and q: "validated = path_str q"
      by blast
    with n have "normalized q" unfolding resolve_normalizes_def by blast
    with q outtmpl_in_directory [of q]
    show "\<exists>q. normalized q \<and> validated = path_str q \<and>
            outtmpl (make_ydl_opts validated) = path_str (q @ [lit ''%(title)s.%(ext)s''])"
      by auto
  qed
  have head: "\<exists>evs. fst (snd (download_audio svc url dpath w)) =
      YoutubeDL (make_ydl_opts dpath) # evs"
    by (rule download_audio_head)
  have opts: "make_ydl_opts dpath =
     \<lparr> format = lit ''bestaudio/best'',
       outtmpl = os_path_join dpath (lit ''%(title)s.%(ext)s''),
       postprocessors =
         [\<lparr> pp_key = lit ''FFmpegExtractAudio'', preferredcodec = lit ''mp3'',
            preferredquality = lit ''192'' \<rparr>],
       postprocessor_args = [lit ''-ar'', lit ''44100''],
       prefer_ffmpeg = True,
       keepvideo = False \<rparr>"
    by (simp add: make_ydl_opts_def)
  have join: "os_path_join dpath (lit ''%(title)s.%(ext)s'') =
     (if dpath = [] \<or> last dpath = 0x2F then dpath @ lit ''%(title)s.%(ext)s''
      else dpath @ lit ''/'' @ lit ''%(title)s.%(ext)s'')"
    by (simp add: os_path_join_def starts_with_def)
  have inside: "normalized p \<longrightarrow>
      outtmpl (make_ydl_opts (path_str p)) = path_str (p @ [lit ''%(title)s.%(ext)s''])"
    using outtmpl_in_directory [of p] by blast
  have pass: "strip line \<noteq> [] \<and> valid_url (strip line) \<longrightarrow>
      (\<exists>evs. fst (snd (snd (loop_body svc st w line))) =
         Print (newline # lit ''Processing: '' @ strip line) #
         YoutubeDL (make_ydl_opts (download_path st)) # evs)"
    using loop_body_dispatches [of line svc st w] by blast
  have keep: "download_path (fst (snd (loop_body svc st w line))) = download_path st"
    by (rule loop_body_path)
  from head opts join inside pass keep last show ?thesis
    by (intro conjI)
qed

theorem dispatch_configuration_witness:
  "normalized [lit ''tmp'', lit ''music''] \<and>
   outtmpl (make_ydl_opts (lit ''/tmp/music'')) = lit ''/tmp/music/%(title)s.%(ext)s'' \<and>
   outtmpl (make_ydl_opts (lit ''/'')) = lit ''/%(title)s.%(ext)s'' \<and>
   filter is_dispatch
     (snd (program None example_service (ref_fs [] True) None example_fs
        [Inr (lit ''/tmp/''), Inr (lit ''https://youtu.be/x''), Inr []])) =
     [YoutubeDL (make_ydl_opts (lit ''/tmp'')), ExtractInfo (lit ''https://youtu.be/x''),
      Download [lit ''https://youtu.be/x'']] \<and>
   outtmpl (make_ydl_opts (lit ''/tmp'')) = lit ''/tmp/%(title)s.%(ext)s''"
  using dispatch_configuration [where p = "[lit ''tmp'', lit ''music'']"
          and line = "lit ''https://youtu.be/x''" and svc = example_service
          and st = example_session and w = example_fs and url = "[]" and dpath = "[]"
          and fsys = "ref_fs [] True" and ffmpeg = None
          and ins = "[Inr (lit ''/tmp/''), Inr (lit ''https://youtu.be/x''), Inr []]"
          and validated = "lit ''/tmp''" and pevs = "[Prompt path_prompt]"
          and rest = "[Inr (lit ''https://youtu.be/x''), Inr []]" and ?w1.0 = example_fs]
        dispatch_configuration [where p = "[]"
          and line = "lit ''https://youtu.be/x''" and svc = example_service
          and st = example_session and w = example_fs and url = "[]" and dpath = "[]"
          and fsys = "ref_fs [] True" and ffmpeg = None and ins = "[]"]
        ref_fs_resolve_normalizes [OF normalized_root, of True]
  by (simp add: normalized_def normal_segment_def session_defs path_defs ref_defs string_defs
      example_defs dispatch_defs text_defs make_ydl_opts_def os_path_join_def Let_def)

end
